theory Spec2Isabelle
  imports Main "HOL-Library.Word"
begin

section \<open>Lily's tracker: the data-persistence core\<close>

text \<open>
  A shallow embedding of \<^verbatim>\<open>database/database_manager.py\<close> and of the persistence
  routines of \<^verbatim>\<open>ui/main_window.py\<close>. The program talks to three things it does not
  own: the file system (\<^verbatim>\<open>os.path\<close>, \<^verbatim>\<open>shutil\<close>), the SQLite driver behind
  \<^verbatim>\<open>QSqlDatabase\<close>/\<^verbatim>\<open>QSqlQuery\<close>, and \<^verbatim>\<open>QSettings\<close>. Each is given a small
  executable model below, stated next to the call it stands for; everything else follows
  the Python line by line. The module logger is a list of entries carried in the state.
\<close>

subsection \<open>Logging and exceptions\<close>

datatype log_entry = LogInfo string | LogError string | LogException string

datatype py_exception =
    FileNotFoundError
  | IsADirectoryError
  | SameFileError
  | PermissionError
  | OverflowError
  | ValueError string
  | TypeError
  | RuntimeError

fun is_failure_entry :: "log_entry \<Rightarrow> bool" where
  "is_failure_entry (LogInfo m) = False"
| "is_failure_entry (LogError m) = True"
| "is_failure_entry (LogException m) = True"

subsection \<open>The file system\<close>

text \<open>
  Paths are absolute or relative strings with \<^verbatim>\<open>/\<close> as separator; a file system maps a
  path to the file or directory found there. Reaching a path means walking through its
  directories: \<open>ancestors\<close> lists them (for \<^verbatim>\<open>/home/u/lily.db\<close>: \<^verbatim>\<open>/\<close>, \<^verbatim>\<open>/home\<close>,
  \<^verbatim>\<open>/home/u\<close>), and a path \<open>resolves\<close> when each of them is a directory. A relative
  name without a separator lies in the working directory, which exists.
\<close>

type_synonym path = string
type_synonym bytes = "8 word list"

datatype node = File bytes | Dir

type_synonym filesystem = "path \<Rightarrow> node option"

fun prefixes_at_slash :: "path \<Rightarrow> path \<Rightarrow> path list" where
  "prefixes_at_slash seen [] = []"
| "prefixes_at_slash seen (c # cs) =
     (if c = CHR ''/''
      then (if seen = [] then ''/'' else seen) # prefixes_at_slash (seen @ [c]) cs
      else prefixes_at_slash (seen @ [c]) cs)"

definition ancestors :: "path \<Rightarrow> path list" where
  "ancestors p = prefixes_at_slash [] p"

definition resolves :: "filesystem \<Rightarrow> path \<Rightarrow> bool" where
  "resolves files p = list_all (\<lambda>d. files d = Some Dir) (ancestors p)"

text \<open>What the operating system finds at a path: nothing, unless the path resolves.\<close>

definition os_stat :: "filesystem \<Rightarrow> path \<Rightarrow> node option" where
  "os_stat files p = (if resolves files p then files p else None)"

text \<open>\<^verbatim>\<open>os.path.exists\<close>: true for a file and for a directory.\<close>

definition os_path_exists :: "filesystem \<Rightarrow> path \<Rightarrow> bool" where
  "os_path_exists files p = (os_stat files p \<noteq> None)"

definition os_path_basename :: "path \<Rightarrow> path" where
  "os_path_basename p = rev (takeWhile (\<lambda>c. c \<noteq> CHR ''/'') (rev p))"

definition os_path_join :: "path \<Rightarrow> path \<Rightarrow> path" where
  "os_path_join a b =
     (if b \<noteq> [] \<and> hd b = CHR ''/'' then b
      else if a = [] \<or> last a = CHR ''/'' then a @ b
      else a @ ''/'' @ b)"

text \<open>
  \<^verbatim>\<open>shutil.copy(src, dst)\<close>. \<open>denied\<close> is the set of paths the operating system refuses
  to open (permissions, a read-only or full volume). A directory as destination receives
  the file under the source's base name; source and destination being one file raises; a
  missing source, a directory as source and a source that may not be read raise; a
  destination whose directory does not exist or is not a directory raises
  (\<^verbatim>\<open>FileNotFoundError\<close> stands for \<^verbatim>\<open>NotADirectoryError\<close> too), and so does a
  destination that may not be written. Otherwise the destination holds the source's bytes.
\<close>

definition shutil_copy :: "filesystem \<Rightarrow> path set \<Rightarrow> path \<Rightarrow> path \<Rightarrow> py_exception + filesystem" where
  "shutil_copy files denied src dst =
     (let dst' = (if os_stat files dst = Some Dir
                  then os_path_join dst (os_path_basename src) else dst)
      in if os_stat files src \<noteq> None \<and> src = dst' then Inl SameFileError
         else (case os_stat files src of
                 None \<Rightarrow> Inl FileNotFoundError
               | Some Dir \<Rightarrow> Inl IsADirectoryError
               | Some (File content) \<Rightarrow>
                   if src \<in> denied then Inl PermissionError
                   else if os_stat files dst' = Some Dir then Inl IsADirectoryError
                   else if \<not> resolves files dst' then Inl FileNotFoundError
                   else if dst' \<in> denied then Inl PermissionError
                   else Inr (files(dst' \<mapsto> File content))))"

text \<open>
  Opening a SQLite database by file name (\<^verbatim>\<open>QSqlDatabase.open\<close> with the
  \<^verbatim>\<open>QSQLITE\<close> driver). An existing file is opened as it is, unless access is refused;
  a directory cannot be opened; a missing file is created empty when its directory
  exists and the path may be written, and the open fails otherwise.
\<close>

definition sqlite_open :: "filesystem \<Rightarrow> path set \<Rightarrow> path \<Rightarrow> bool \<times> filesystem" where
  "sqlite_open files denied name =
     (case os_stat files name of
        Some (File content) \<Rightarrow> (name \<notin> denied, files)
      | Some Dir \<Rightarrow> (False, files)
      | None \<Rightarrow>
          if resolves files name \<and> name \<notin> denied
          then (True, files(name \<mapsto> File []))
          else (False, files))"

datatype os_call = ShutilCopy path path | DbOpen path | DbClose path

record world =
  fs :: filesystem
  denied :: "path set"
  calls :: "os_call list"
  logged :: "log_entry list"

text \<open>
  \<^verbatim>\<open>initialize_database()\<close>. Its two paths are module globals built from
  \<^verbatim>\<open>tracker_config.DB_NAME\<close>, the working directory and the home directory; they are
  parameters here. \<open>calls\<close> records the file-system and driver calls it makes.
\<close>

definition initialize_database :: "path \<Rightarrow> path \<Rightarrow> world \<Rightarrow> world" where
  "initialize_database db_path target_db_path w =
     (if \<not> os_path_exists (fs w) target_db_path then
        (if os_path_exists (fs w) db_path then
           (case shutil_copy (fs w) (denied w) db_path target_db_path of
              Inr files' \<Rightarrow>
                w\<lparr>fs := files', calls := calls w @ [ShutilCopy db_path target_db_path]\<rparr>
            | Inl e \<Rightarrow>
                w\<lparr>calls := calls w @ [ShutilCopy db_path target_db_path],
                  logged := logged w @ [LogError ''Error: Unable to create database'']\<rparr>)
         else
           (case sqlite_open (fs w) (denied w) target_db_path of
              (ok, files') \<Rightarrow>
                w\<lparr>fs := files',
                  calls := calls w @ [DbOpen target_db_path, DbClose target_db_path],
                  logged := logged w @
                    (if \<not> ok then [LogError ''Error: Unable to create database''] else [])\<rparr>))
      else w)"

text \<open>
  Concrete starting states over the directories \<^verbatim>\<open>/\<close>, \<^verbatim>\<open>/app\<close>, \<^verbatim>\<open>/home\<close> and
  \<^verbatim>\<open>/home/u\<close>: only the template exists; both files exist; neither does. Then worlds
  where the target cannot be written: the home directory is missing, the target path is
  refused by the operating system, the home directory is a regular file.
\<close>

definition base_dirs :: filesystem where
  "base_dirs = Map.empty(''/'' \<mapsto> Dir, ''/app'' \<mapsto> Dir, ''/home'' \<mapsto> Dir, ''/home/u'' \<mapsto> Dir)"

definition template_only_world :: world where
  "template_only_world =
     \<lparr>fs = base_dirs(''/app/lily.db'' \<mapsto> File [83, 81, 76]),
      denied = {}, calls = [], logged = []\<rparr>"

definition seeded_world :: world where
  "seeded_world =
     \<lparr>fs = base_dirs(''/app/lily.db'' \<mapsto> File [83, 81, 76], ''/home/u/lily.db'' \<mapsto> File [7]),
      denied = {}, calls = [], logged = []\<rparr>"

definition empty_world :: world where
  "empty_world = \<lparr>fs = base_dirs, denied = {}, calls = [], logged = []\<rparr>"

definition homeless_world :: world where
  "homeless_world =
     \<lparr>fs = Map.empty(''/'' \<mapsto> Dir, ''/app'' \<mapsto> Dir, ''/home'' \<mapsto> Dir,
                      ''/app/lily.db'' \<mapsto> File [83, 81, 76]),
      denied = {}, calls = [], logged = []\<rparr>"

definition read_only_home_world :: world where
  "read_only_home_world =
     \<lparr>fs = base_dirs(''/app/lily.db'' \<mapsto> File [83, 81, 76]),
      denied = {''/home/u/lily.db''}, calls = [], logged = []\<rparr>"

definition read_only_empty_world :: world where
  "read_only_empty_world =
     \<lparr>fs = base_dirs, denied = {''/home/u/lily.db''}, calls = [], logged = []\<rparr>"

definition home_is_a_file_world :: world where
  "home_is_a_file_world =
     \<lparr>fs = Map.empty(''/'' \<mapsto> Dir, ''/home'' \<mapsto> Dir, ''/home/u'' \<mapsto> File []),
      denied = {}, calls = [], logged = []\<rparr>"

subsection \<open>The SQLite driver\<close>

text \<open>
  Values as they are bound and read back, the two column types the schema uses, and a
  table: its columns after \<^verbatim>\<open>id INTEGER PRIMARY KEY AUTOINCREMENT\<close> (which every
  table of this program has), its rows as (id, values in column order), and its
  AUTOINCREMENT counter \<open>seq\<close> (the table's entry in \<^verbatim>\<open>sqlite_sequence\<close>: the largest
  id ever given out, 0 for a table that never held a row).
\<close>

datatype sql_value = SqlNull | SqlInt int | SqlText string

datatype sql_type = INTEGER | TEXT

record table =
  columns :: "(string \<times> sql_type) list"
  rows :: "(int \<times> sql_value list) list"
  seq :: int

text \<open>
  The two statement forms the program sends. \<open>InsertInto name cols n\<close> is
  \<^verbatim>\<open>INSERT INTO name(cols) VALUES (?, ..., ?)\<close> with \<open>n\<close> placeholders.
\<close>

datatype sql_stmt =
    CreateTableIfNotExists string "(string \<times> sql_type) list"
  | InsertInto string "string list" nat

record QSqlDatabase =
  isOpen :: bool
  tables :: "(string \<times> table) list"

definition table_names :: "QSqlDatabase \<Rightarrow> string list" where
  "table_names d = map fst (tables d)"

fun update_table :: "string \<Rightarrow> table \<Rightarrow> (string \<times> table) list \<Rightarrow> (string \<times> table) list" where
  "update_table name t [] = []"
| "update_table name t ((n, u) # rest) =
     (if n = name then (n, t) # rest else (n, u) # update_table name t rest)"

text \<open>
  AUTOINCREMENT: the new id is one more than the largest id the table has ever held,
  whether or not that row is still there. Ids are signed 64-bit integers: once the
  largest one has been given out there is no next id, and the insert is refused.
\<close>

definition max_rowid :: int where
  "max_rowid = 9223372036854775807"

definition next_rowid :: "table \<Rightarrow> int option" where
  "next_rowid t =
     (let largest = fold max (map fst (rows t)) (seq t)
      in if largest < max_rowid then Some (largest + 1) else None)"

definition row_values :: "(string \<times> sql_type) list \<Rightarrow> string list \<Rightarrow> sql_value list \<Rightarrow> sql_value list" where
  "row_values cols names vs =
     map (\<lambda>(c, ty). case map_of (zip names vs) c of Some v \<Rightarrow> v | None \<Rightarrow> SqlNull) cols"

definition append_row :: "int \<Rightarrow> string list \<Rightarrow> sql_value list \<Rightarrow> table \<Rightarrow> table" where
  "append_row new_id names vs t =
     t\<lparr>rows := rows t @ [(new_id, row_values (columns t) names vs)], seq := new_id\<rparr>"

text \<open>
  Running one statement with its bound values: the new database, or the driver's error
  text. Every value that reaches the driver from this program has the type of its column
  (text into TEXT, 64-bit integers into INTEGER), so it is stored as bound.
\<close>

definition sqlite_step :: "sql_stmt \<Rightarrow> sql_value list \<Rightarrow> QSqlDatabase \<Rightarrow> string + QSqlDatabase" where
  "sqlite_step stmt vs d =
     (if \<not> isOpen d then Inl ''Driver not loaded''
      else (case stmt of
              CreateTableIfNotExists name cols \<Rightarrow>
                (if name \<in> set (table_names d) then Inr d
                 else Inr (d\<lparr>tables := tables d @ [(name, \<lparr>columns = cols, rows = [], seq = 0\<rparr>)]\<rparr>))
            | InsertInto name names n \<Rightarrow>
                (case map_of (tables d) name of
                   None \<Rightarrow> Inl (''no such table: '' @ name)
                 | Some t \<Rightarrow>
                     if \<not> list_all (\<lambda>c. c \<in> set (map fst (columns t))) names
                       then Inl ''no such column''
                     else if n \<noteq> length names then Inl ''values do not match columns''
                     else if length vs \<noteq> n then Inl ''Parameter count mismatch''
                     else (case next_rowid t of
                             None \<Rightarrow> Inl ''database or disk is full''
                           | Some new_id \<Rightarrow>
                               Inr (d\<lparr>tables :=
                                      update_table name (append_row new_id names vs t) (tables d)\<rparr>)))))"

record QSqlQuery =
  lastQuery :: "sql_stmt option"
  boundValues :: "sql_value list"
  lastError :: string

subsection \<open>DataManager\<close>

record DataManager =
  db :: QSqlDatabase
  query :: QSqlQuery
  dm_log :: "log_entry list"

text \<open>
  \<^verbatim>\<open>QSqlQuery.prepare\<close>, \<^verbatim>\<open>addBindValue\<close>, \<^verbatim>\<open>exec()\<close> and \<^verbatim>\<open>exec(sql)\<close>. Python
  integers are unbounded, the driver's are signed 64-bit. What the binding layer makes of
  an integer outside that range is not decided by this program: it is the parameter
  \<open>oversized\<close>, which gives the value bound in the integer's place or the exception
  raised. Whatever it gives, no integer outside the range reaches the driver.
\<close>

type_synonym int_binding = "int \<Rightarrow> py_exception + sql_value"

definition fits_int64 :: "sql_value \<Rightarrow> bool" where
  "fits_int64 v =
     (case v of
        SqlInt i \<Rightarrow> - 9223372036854775808 \<le> i \<and> i \<le> 9223372036854775807
      | SqlText s \<Rightarrow> True
      | SqlNull \<Rightarrow> True)"

definition query_prepare :: "sql_stmt \<Rightarrow> QSqlQuery \<Rightarrow> QSqlQuery" where
  "query_prepare stmt q = q\<lparr>lastQuery := Some stmt, boundValues := []\<rparr>"

definition addBindValue :: "int_binding \<Rightarrow> sql_value \<Rightarrow> QSqlQuery \<Rightarrow> py_exception + QSqlQuery" where
  "addBindValue oversized v q =
     (case v of
        SqlInt i \<Rightarrow>
          if fits_int64 v then Inr (q\<lparr>boundValues := boundValues q @ [v]\<rparr>)
          else (case oversized i of
                  Inl e \<Rightarrow> Inl e
                | Inr v' \<Rightarrow>
                    if fits_int64 v' then Inr (q\<lparr>boundValues := boundValues q @ [v']\<rparr>)
                    else Inl OverflowError)
      | SqlText s \<Rightarrow> Inr (q\<lparr>boundValues := boundValues q @ [v]\<rparr>)
      | SqlNull \<Rightarrow> Inr (q\<lparr>boundValues := boundValues q @ [v]\<rparr>))"

text \<open>
  The loop \<^verbatim>\<open>for value in bind_values: self.query.addBindValue(value)\<close>: it stops at
  the first value that raises, with the values before it bound.
\<close>

fun bind_each :: "int_binding \<Rightarrow> sql_value list \<Rightarrow> QSqlQuery \<Rightarrow> py_exception option \<times> QSqlQuery" where
  "bind_each oversized [] q = (None, q)"
| "bind_each oversized (v # vs) q =
     (case addBindValue oversized v q of
        Inl e \<Rightarrow> (Some e, q)
      | Inr q' \<Rightarrow> bind_each oversized vs q')"

definition query_exec :: "DataManager \<Rightarrow> bool \<times> DataManager" where
  "query_exec dm =
     (case lastQuery (query dm) of
        None \<Rightarrow> (False, dm\<lparr>query := (query dm)\<lparr>lastError := ''No query''\<rparr>\<rparr>)
      | Some stmt \<Rightarrow>
          (case sqlite_step stmt (boundValues (query dm)) (db dm) of
             Inl err \<Rightarrow> (False, dm\<lparr>query := (query dm)\<lparr>lastError := err\<rparr>\<rparr>)
           | Inr d \<Rightarrow> (True, dm\<lparr>db := d, query := (query dm)\<lparr>lastError := []\<rparr>\<rparr>)))"

definition query_exec_sql :: "sql_stmt \<Rightarrow> DataManager \<Rightarrow> bool \<times> DataManager" where
  "query_exec_sql stmt dm = query_exec (dm\<lparr>query := query_prepare stmt (query dm)\<rparr>)"

text \<open>The six schemas, as the \<^verbatim>\<open>CREATE TABLE IF NOT EXISTS\<close> statements list them.\<close>

definition lily_notes_columns :: "(string \<times> sql_type) list" where
  "lily_notes_columns = [(''lily_date'', TEXT), (''lily_time'', TEXT), (''lily_notes'', TEXT)]"

definition lily_in_room_columns :: "(string \<times> sql_type) list" where
  "lily_in_room_columns =
     [(''lily_date'', TEXT), (''lily_time'', TEXT), (''time_in_room_slider'', INTEGER)]"

definition lily_diet_columns :: "(string \<times> sql_type) list" where
  "lily_diet_columns = [(''lily_date'', TEXT), (''lily_time'', TEXT)]"

definition lily_mood_columns :: "(string \<times> sql_type) list" where
  "lily_mood_columns =
     [(''lily_date'', TEXT), (''lily_time'', TEXT), (''lily_mood_slider'', INTEGER),
      (''lily_mood_activity_slider'', INTEGER), (''lily_energy_slider'', INTEGER)]"

definition lily_walk_columns :: "(string \<times> sql_type) list" where
  "lily_walk_columns =
     [(''lily_date'', TEXT), (''lily_time'', TEXT), (''lily_behavior'', INTEGER),
      (''lily_gait'', INTEGER)]"

definition lily_walk_notes_columns :: "(string \<times> sql_type) list" where
  "lily_walk_notes_columns =
     [(''lily_date'', TEXT), (''lily_time'', TEXT), (''lily_walk_note'', TEXT)]"

text \<open>
  Each \<^verbatim>\<open>setup_..._table\<close> runs its statement and logs an error when \<^verbatim>\<open>exec\<close>
  returns false.
\<close>

definition create_table :: "string \<Rightarrow> (string \<times> sql_type) list \<Rightarrow> DataManager \<Rightarrow> DataManager" where
  "create_table name cols dm =
     (case query_exec_sql (CreateTableIfNotExists name cols) dm of
        (ok, dm') \<Rightarrow>
          if \<not> ok then dm'\<lparr>dm_log := dm_log dm' @ [LogError (''Error creating table: '' @ name)]\<rparr>
          else dm')"

definition setup_lily_notes_table :: "DataManager \<Rightarrow> DataManager" where
  "setup_lily_notes_table = create_table ''lily_notes_table'' lily_notes_columns"

definition setup_time_in_room_table :: "DataManager \<Rightarrow> DataManager" where
  "setup_time_in_room_table = create_table ''lily_in_room_table'' lily_in_room_columns"

definition setup_lily_diet_table :: "DataManager \<Rightarrow> DataManager" where
  "setup_lily_diet_table = create_table ''lily_diet_table'' lily_diet_columns"

definition setup_lily_mood_table :: "DataManager \<Rightarrow> DataManager" where
  "setup_lily_mood_table = create_table ''lily_mood_table'' lily_mood_columns"

definition setup_wiggles_walks_table :: "DataManager \<Rightarrow> DataManager" where
  "setup_wiggles_walks_table = create_table ''lily_walk_table'' lily_walk_columns"

definition setup_lily_walk_notes_table :: "DataManager \<Rightarrow> DataManager" where
  "setup_lily_walk_notes_table = create_table ''lily_walk_notes_table'' lily_walk_notes_columns"

definition setup_tables :: "DataManager \<Rightarrow> DataManager" where
  "setup_tables dm =
     setup_lily_walk_notes_table
       (setup_lily_notes_table
         (setup_time_in_room_table
           (setup_wiggles_walks_table
             (setup_lily_mood_table
               (setup_lily_diet_table dm)))))"

definition schema_table_names :: "string list" where
  "schema_table_names =
     [''lily_diet_table'', ''lily_mood_table'', ''lily_walk_table'', ''lily_in_room_table'',
      ''lily_notes_table'', ''lily_walk_notes_table'']"

text \<open>
  \<^verbatim>\<open>DataManager.__init__\<close>: \<open>opened\<close> is what \<^verbatim>\<open>self.db.open()\<close> returned and
  \<open>stored\<close> the tables the database file already holds. A failed open is logged and
  the constructor goes on to \<open>setup_tables\<close> all the same.
\<close>

definition DataManager_init :: "bool \<Rightarrow> (string \<times> table) list \<Rightarrow> DataManager" where
  "DataManager_init opened stored =
     setup_tables
       \<lparr>db = \<lparr>isOpen = opened, tables = (if opened then stored else [])\<rparr>,
        query = \<lparr>lastQuery = None, boundValues = [], lastError = []\<rparr>,
        dm_log = (if \<not> opened then [LogError ''Error: Unable to open database''] else [])
                 @ [LogInfo ''DB INITIALIZING'']\<rparr>"

text \<open>
  \<^verbatim>\<open>close_database(self)\<close>. \<open>DataManager_init\<close> always sets \<open>db\<close>, so the attribute
  lookup in the \<^verbatim>\<open>try\<close> block cannot raise and the \<^verbatim>\<open>except\<close> branch has no case.
\<close>

definition close_database :: "DataManager \<Rightarrow> DataManager" where
  "close_database dm =
     (let dm1 = dm\<lparr>dm_log := dm_log dm @ [LogInfo ''if database is open'']\<rparr>
      in if isOpen (db dm1)
         then dm1\<lparr>dm_log := dm_log dm1 @ [LogInfo ''the database is closed successfully''],
                db := (db dm1)\<lparr>isOpen := False\<rparr>\<rparr>
         else dm1)"

subsection \<open>The insert methods\<close>

text \<open>
  The SQL text of each insert method, character for character (the line breaks and the
  indentation of the Python string literals included).
\<close>

definition lily_notes_insert_sql :: string where
  "lily_notes_insert_sql =
     ''INSERT INTO lily_notes_table(lily_date, lily_time, lily_notes) VALUES (?, ?, ?)''"

definition lily_in_room_insert_sql :: string where
  "lily_in_room_insert_sql =
     ''INSERT INTO lily_in_room_table(lily_date, lily_time,'' @ [CHR 0x0A] @
     ''                                       time_in_room_slider) VALUES (?, ?, ?)''"

definition lily_diet_insert_sql :: string where
  "lily_diet_insert_sql = ''INSERT INTO lily_diet_table(lily_date, lily_time) VALUES (?, ?)''"

definition lily_mood_insert_sql :: string where
  "lily_mood_insert_sql =
     ''INSERT INTO lily_mood_table('' @ [CHR 0x0A] @
     ''        lily_date, lily_time, lily_mood_slider, lily_mood_activity_slider, lily_energy_slider)''
     @ [CHR 0x0A] @
     ''        VALUES (?, ?, ?, ?, ?)''"

definition lily_walk_insert_sql :: string where
  "lily_walk_insert_sql =
     ''INSERT INTO lily_walk_table('' @ [CHR 0x0A] @
     ''            lily_date, lily_time, lily_behavior, lily_gait)'' @ [CHR 0x0A] @
     ''            VALUES (?, ?, ?, ?)''"

definition lily_walk_notes_insert_sql :: string where
  "lily_walk_notes_insert_sql =
     ''INSERT INTO lily_walk_notes_table('' @ [CHR 0x0A] @
     ''            lily_date, lily_time, lily_walk_note)'' @ [CHR 0x0A] @
     ''            VALUES (?, ?, ?)''"

text \<open>The \<^verbatim>\<open>bind_values\<close> list of each insert method.\<close>

definition lily_notes_bind_values :: "string \<Rightarrow> string \<Rightarrow> string \<Rightarrow> sql_value list" where
  "lily_notes_bind_values lily_date lily_time lily_notes =
     [SqlText lily_date, SqlText lily_time, SqlText lily_notes]"

definition lily_in_room_bind_values :: "string \<Rightarrow> string \<Rightarrow> int \<Rightarrow> sql_value list" where
  "lily_in_room_bind_values lily_date lily_time time_in_room_slider =
     [SqlText lily_date, SqlText lily_time, SqlInt time_in_room_slider]"

definition lily_diet_bind_values :: "string \<Rightarrow> string \<Rightarrow> sql_value list" where
  "lily_diet_bind_values lily_date lily_time = [SqlText lily_date, SqlText lily_time]"

definition lily_mood_bind_values :: "string \<Rightarrow> string \<Rightarrow> int \<Rightarrow> int \<Rightarrow> int \<Rightarrow> sql_value list" where
  "lily_mood_bind_values lily_date lily_time lily_mood_slider lily_mood_activity_slider
       lily_energy_slider =
     [SqlText lily_date, SqlText lily_time, SqlInt lily_mood_slider,
      SqlInt lily_mood_activity_slider, SqlInt lily_energy_slider]"

definition lily_walk_bind_values :: "string \<Rightarrow> string \<Rightarrow> int \<Rightarrow> int \<Rightarrow> sql_value list" where
  "lily_walk_bind_values lily_date lily_time lily_behavior lily_gait =
     [SqlText lily_date, SqlText lily_time, SqlInt lily_behavior, SqlInt lily_gait]"

definition lily_walk_notes_bind_values :: "string \<Rightarrow> string \<Rightarrow> string \<Rightarrow> sql_value list" where
  "lily_walk_notes_bind_values lily_date lily_time lily_walk_note =
     [SqlText lily_date, SqlText lily_time, SqlText lily_walk_note]"

text \<open>
  The check \<^verbatim>\<open>if sql.count('?') != len(bind_values): raise ValueError(...)\<close>. The
  message names the table; its two numbers are left out.
\<close>

definition check_bind_count :: "string \<Rightarrow> string \<Rightarrow> sql_value list \<Rightarrow> py_exception + unit" where
  "check_bind_count label sql bind_values =
     (if count_list sql CHR ''?'' \<noteq> length bind_values
      then Inl (ValueError (''Mismatch: '' @ label))
      else Inr ())"

text \<open>
  The body the six insert methods share: prepare, bind each value, check the count, run
  the statement and log when \<^verbatim>\<open>exec\<close> returns false. A \<^verbatim>\<open>ValueError\<close> is caught and
  logged by the first \<^verbatim>\<open>except\<close> clause, any other exception (here: the one a value can
  raise while it is bound) by the second. \<open>label\<close> is the table name the log messages
  print, \<open>stmt\<close> is how the driver reads the text \<open>sql\<close>, \<open>oversized\<close> is the binding
  layer's treatment of integers outside 64 bits.
\<close>

definition insert_into :: "int_binding \<Rightarrow> string \<Rightarrow> string \<Rightarrow> sql_stmt \<Rightarrow> sql_value list
    \<Rightarrow> DataManager \<Rightarrow> DataManager" where
  "insert_into oversized label sql stmt bind_values dm =
     (case bind_each oversized bind_values (query_prepare stmt (query dm)) of
        (Some e, q) \<Rightarrow>
          dm\<lparr>query := q,
             dm_log := dm_log dm @ [LogError (''Error during data insertion: '' @ label)]\<rparr>
      | (None, q) \<Rightarrow>
          (let dm1 = dm\<lparr>query := q\<rparr>
           in case check_bind_count label sql bind_values of
                Inl e \<Rightarrow> dm1\<lparr>dm_log := dm_log dm1 @ [LogError (''ValueError '' @ label)]\<rparr>
              | Inr u \<Rightarrow>
                  (case query_exec dm1 of
                     (ok, dm2) \<Rightarrow>
                       if \<not> ok
                       then dm2\<lparr>dm_log := dm_log dm2 @
                              [LogError (''Error inserting data: '' @ label @ '' - ''
                                         @ lastError (query dm2))]\<rparr>
                       else dm2)))"

definition insert_into_lily_notes_table :: "int_binding \<Rightarrow> string \<Rightarrow> string \<Rightarrow> string \<Rightarrow> DataManager \<Rightarrow> DataManager" where
  "insert_into_lily_notes_table oversized lily_date lily_time lily_notes =
     insert_into oversized ''lily_notes_table'' lily_notes_insert_sql
       (InsertInto ''lily_notes_table'' [''lily_date'', ''lily_time'', ''lily_notes'']
          (count_list lily_notes_insert_sql CHR ''?''))
       (lily_notes_bind_values lily_date lily_time lily_notes)"

definition insert_into_time_in_room_table :: "int_binding \<Rightarrow> string \<Rightarrow> string \<Rightarrow> int \<Rightarrow> DataManager \<Rightarrow> DataManager" where
  "insert_into_time_in_room_table oversized lily_date lily_time time_in_room_slider =
     insert_into oversized ''lily_in_room_table'' lily_in_room_insert_sql
       (InsertInto ''lily_in_room_table'' [''lily_date'', ''lily_time'', ''time_in_room_slider'']
          (count_list lily_in_room_insert_sql CHR ''?''))
       (lily_in_room_bind_values lily_date lily_time time_in_room_slider)"

text \<open>The diet method's log messages say \<^verbatim>\<open>lily_eats_table\<close>.\<close>

definition insert_into_lily_diet_table :: "int_binding \<Rightarrow> string \<Rightarrow> string \<Rightarrow> DataManager \<Rightarrow> DataManager" where
  "insert_into_lily_diet_table oversized lily_date lily_time =
     insert_into oversized ''lily_eats_table'' lily_diet_insert_sql
       (InsertInto ''lily_diet_table'' [''lily_date'', ''lily_time'']
          (count_list lily_diet_insert_sql CHR ''?''))
       (lily_diet_bind_values lily_date lily_time)"

definition insert_into_lily_mood_table :: "int_binding \<Rightarrow> string \<Rightarrow> string \<Rightarrow> int \<Rightarrow> int \<Rightarrow> int \<Rightarrow> DataManager \<Rightarrow> DataManager" where
  "insert_into_lily_mood_table oversized lily_date lily_time lily_mood_slider lily_mood_activity_slider
       lily_energy_slider =
     insert_into oversized ''lily_mood_table'' lily_mood_insert_sql
       (InsertInto ''lily_mood_table''
          [''lily_date'', ''lily_time'', ''lily_mood_slider'', ''lily_mood_activity_slider'',
           ''lily_energy_slider'']
          (count_list lily_mood_insert_sql CHR ''?''))
       (lily_mood_bind_values lily_date lily_time lily_mood_slider lily_mood_activity_slider
          lily_energy_slider)"

definition insert_into_wiggles_walks_table :: "int_binding \<Rightarrow> string \<Rightarrow> string \<Rightarrow> int \<Rightarrow> int \<Rightarrow> DataManager \<Rightarrow> DataManager" where
  "insert_into_wiggles_walks_table oversized lily_date lily_time lily_behavior lily_gait =
     insert_into oversized ''lily_walk_table'' lily_walk_insert_sql
       (InsertInto ''lily_walk_table''
          [''lily_date'', ''lily_time'', ''lily_behavior'', ''lily_gait'']
          (count_list lily_walk_insert_sql CHR ''?''))
       (lily_walk_bind_values lily_date lily_time lily_behavior lily_gait)"

definition insert_into_lily_walk_notes_table :: "int_binding \<Rightarrow> string \<Rightarrow> string \<Rightarrow> string \<Rightarrow> DataManager \<Rightarrow> DataManager" where
  "insert_into_lily_walk_notes_table oversized lily_date lily_time lily_walk_note =
     insert_into oversized ''lily_walk_notes_table'' lily_walk_notes_insert_sql
       (InsertInto ''lily_walk_notes_table'' [''lily_date'', ''lily_time'', ''lily_walk_note'']
          (count_list lily_walk_notes_insert_sql CHR ''?''))
       (lily_walk_notes_bind_values lily_date lily_time lily_walk_note)"

text \<open>
  A call to one of the six insert methods with its arguments, and what each call is about:
  the table it writes, the columns \<open>setup_tables\<close> gives that table, the fields the caller
  passed (in column order), the SQL text and the name in the log messages.
\<close>

datatype insert_call =
    NotesCall string string string
  | TimeInRoomCall string string int
  | DietCall string string
  | MoodCall string string int int int
  | WalkCall string string int int
  | WalkNotesCall string string string

fun run_insert :: "int_binding \<Rightarrow> insert_call \<Rightarrow> DataManager \<Rightarrow> DataManager" where
  "run_insert oversized (NotesCall d t n) = insert_into_lily_notes_table oversized d t n"
| "run_insert oversized (TimeInRoomCall d t r) = insert_into_time_in_room_table oversized d t r"
| "run_insert oversized (DietCall d t) = insert_into_lily_diet_table oversized d t"
| "run_insert oversized (MoodCall d t m a e) = insert_into_lily_mood_table oversized d t m a e"
| "run_insert oversized (WalkCall d t b g) = insert_into_wiggles_walks_table oversized d t b g"
| "run_insert oversized (WalkNotesCall d t n) = insert_into_lily_walk_notes_table oversized d t n"

fun call_table :: "insert_call \<Rightarrow> string" where
  "call_table (NotesCall d t n) = ''lily_notes_table''"
| "call_table (TimeInRoomCall d t r) = ''lily_in_room_table''"
| "call_table (DietCall d t) = ''lily_diet_table''"
| "call_table (MoodCall d t m a e) = ''lily_mood_table''"
| "call_table (WalkCall d t b g) = ''lily_walk_table''"
| "call_table (WalkNotesCall d t n) = ''lily_walk_notes_table''"

fun call_columns :: "insert_call \<Rightarrow> (string \<times> sql_type) list" where
  "call_columns (NotesCall d t n) = lily_notes_columns"
| "call_columns (TimeInRoomCall d t r) = lily_in_room_columns"
| "call_columns (DietCall d t) = lily_diet_columns"
| "call_columns (MoodCall d t m a e) = lily_mood_columns"
| "call_columns (WalkCall d t b g) = lily_walk_columns"
| "call_columns (WalkNotesCall d t n) = lily_walk_notes_columns"

fun call_fields :: "insert_call \<Rightarrow> sql_value list" where
  "call_fields (NotesCall d t n) = [SqlText d, SqlText t, SqlText n]"
| "call_fields (TimeInRoomCall d t r) = [SqlText d, SqlText t, SqlInt r]"
| "call_fields (DietCall d t) = [SqlText d, SqlText t]"
| "call_fields (MoodCall d t m a e) = [SqlText d, SqlText t, SqlInt m, SqlInt a, SqlInt e]"
| "call_fields (WalkCall d t b g) = [SqlText d, SqlText t, SqlInt b, SqlInt g]"
| "call_fields (WalkNotesCall d t n) = [SqlText d, SqlText t, SqlText n]"




subsection \<open>The table model adapter and row deletion\<close>

text \<open>
  Modelled from the spec: \<^verbatim>\<open>bind(tableName)\<close>, which "issues a select all against
  the table" and is re-queried after every insert or delete. The repository's
  \<^verbatim>\<open>create_and_set_model\<close> (\<^verbatim>\<open>database/database_utility/model_setup.py\<close>) is not
  among the sources. A closed connection or a missing table gives no rows.
\<close>

definition bind_table :: "string \<Rightarrow> DataManager \<Rightarrow> (int \<times> sql_value list) list" where
  "bind_table tableName dm =
     (if isOpen (db dm)
      then (case map_of (tables (db dm)) tableName of None \<Rightarrow> [] | Some t \<Rightarrow> rows t)
      else [])"

text \<open>
  Modelled from the spec: \<^verbatim>\<open>selectedRowIdentities(model, selection)\<close>, which "maps a
  UI selection (possibly empty, possibly multiple rows) to the identity column values".
  A selection is a list of row positions in the bound model.
\<close>

definition selectedRowIdentities :: "(int \<times> sql_value list) list \<Rightarrow> nat list \<Rightarrow> int set" where
  "selectedRowIdentities model selection =
     set (map (\<lambda>r. fst (model ! r)) (filter (\<lambda>r. r < length model) selection))"

text \<open>
  Modelled from the spec: \<^verbatim>\<open>deleteRows(tableName, rowIdentities)\<close>, which "removes
  the given identities; no-ops on an empty set; fails with DeleteError on driver failure,
  logged and swallowed". The repository's \<^verbatim>\<open>delete_selected_rows\<close>
  (\<^verbatim>\<open>database/database_utility/delete_records.py\<close>) is not among the sources. Deleting
  rows leaves the table's AUTOINCREMENT counter as it is.
\<close>

definition deleteRows :: "string \<Rightarrow> int set \<Rightarrow> DataManager \<Rightarrow> DataManager" where
  "deleteRows tableName rowIdentities dm =
     (if rowIdentities = {} then dm
      else if \<not> isOpen (db dm)
        then dm\<lparr>dm_log := dm_log dm @ [LogError ''DeleteError'']\<rparr>
      else (case map_of (tables (db dm)) tableName of
              None \<Rightarrow> dm\<lparr>dm_log := dm_log dm @ [LogError ''DeleteError'']\<rparr>
            | Some t \<Rightarrow>
                dm\<lparr>db := (db dm)\<lparr>tables :=
                     update_table tableName
                       (t\<lparr>rows := filter (\<lambda>r. fst r \<notin> rowIdentities) (rows t)\<rparr>)
                       (tables (db dm))\<rparr>\<rparr>))"

text \<open>
  One binding layer, for the examples below (whose integers all fit): it refuses every
  integer outside 64 bits.
\<close>

definition refuse_oversized :: int_binding where
  "refuse_oversized i = Inl OverflowError"

text \<open>
  A store that was set up, received one mood record and had it deleted again: the mood
  table is empty and its counter stands at 1.
\<close>

definition used_then_emptied :: DataManager where
  "used_then_emptied =
     deleteRows ''lily_mood_table'' {1}
       (insert_into_lily_mood_table refuse_oversized ''2023-12-31'' ''18:30'' 1 1 1
          (DataManager_init True []))"

text \<open>A store whose mood table is empty and has given out the largest id there is.\<close>

definition exhausted_mood_store :: DataManager where
  "exhausted_mood_store =
     DataManager_init True
       [(''lily_mood_table'', \<lparr>columns = lily_mood_columns, rows = [], seq = max_rowid\<rparr>)]"

subsection \<open>The settings store\<close>

datatype setting_value = IntValue int | StrValue string | BlobValue bytes

datatype setting_type = IntType | StrType | BlobType

fun type_of_value :: "setting_value \<Rightarrow> setting_type" where
  "type_of_value (IntValue i) = IntType"
| "type_of_value (StrValue s) = StrType"
| "type_of_value (BlobValue b) = BlobType"

text \<open>
  Modelled from the spec: the Settings Store of section 4.3, "a persistent key-value map
  (scalars + binary blobs)" whose values are "one of {integer, string, binary-blob}".
  The program uses \<^verbatim>\<open>QSettings\<close>, a Qt class that is not among the sources. \<open>cache\<close> is
  the map the running process reads and writes, \<open>disk\<close> is what has been made durable.
\<close>

record settings_store =
  cache :: "string \<Rightarrow> setting_value option"
  disk :: "string \<Rightarrow> setting_value option"

text \<open>Modelled from the spec: \<^verbatim>\<open>setValue(key, value)\<close>.\<close>

definition setValue :: "string \<Rightarrow> setting_value \<Rightarrow> settings_store \<Rightarrow> settings_store" where
  "setValue key v st = st\<lparr>cache := (cache st)(key \<mapsto> v)\<rparr>"

text \<open>Modelled from the spec: \<^verbatim>\<open>flush()\<close>, after which what was set is durable.\<close>

definition flush :: "settings_store \<Rightarrow> settings_store" where
  "flush st = st\<lparr>disk := cache st\<rparr>"

text \<open>Modelled from the spec: the reload of the round trip, a new process reading the store.\<close>

definition reload :: "settings_store \<Rightarrow> settings_store" where
  "reload st = st\<lparr>cache := disk st\<rparr>"

text \<open>
  Modelled from the spec: the coercion to \<^verbatim>\<open>expectedType\<close>. A value that already has
  the expected type is returned as it is, and so is any value when no type is asked for.
  The spec does not say how a value of another type is converted; that conversion is the
  parameter \<open>conv\<close>, which may also raise.
\<close>

definition coerce :: "(setting_type \<Rightarrow> setting_value \<Rightarrow> py_exception + setting_value)
    \<Rightarrow> setting_type option \<Rightarrow> setting_value \<Rightarrow> py_exception + setting_value" where
  "coerce conv expectedType v =
     (case expectedType of
        None \<Rightarrow> Inr v
      | Some ty \<Rightarrow> if type_of_value v = ty then Inr v else conv ty v)"

text \<open>
  Modelled from the spec: \<^verbatim>\<open>getValue(key, default, expectedType)\<close>, "Missing key
  returns the caller-supplied default coerced to expectedType".
\<close>

definition getValue :: "(setting_type \<Rightarrow> setting_value \<Rightarrow> py_exception + setting_value)
    \<Rightarrow> string \<Rightarrow> setting_value \<Rightarrow> setting_type option \<Rightarrow> settings_store
    \<Rightarrow> py_exception + setting_value" where
  "getValue conv key default_value expectedType st =
     coerce conv expectedType (case cache st key of None \<Rightarrow> default_value | Some v \<Rightarrow> v)"

subsection \<open>MainWindow: saving and restoring the widget state\<close>

text \<open>
  What the widgets and the window return when \<open>save_state\<close> asks them: the four sliders,
  the four spin boxes, \<^verbatim>\<open>lily_notes.toHtml()\<close>, \<^verbatim>\<open>saveGeometry()\<close> and
  \<^verbatim>\<open>saveState()\<close>.
\<close>

record window_values =
  lily_time_in_room_slider :: int
  lily_mood_slider :: int
  lily_mood_activity_slider :: int
  lily_energy_slider :: int
  lily_time_in_room :: int
  lily_mood :: int
  lily_activity :: int
  lily_energy :: int
  lily_notes_html :: string
  saveGeometry :: bytes
  saveState :: bytes

record app_state =
  settings :: settings_store
  app_log :: "log_entry list"

text \<open>
  One statement \<^verbatim>\<open>self.settings.setValue(key, <widget value>)\<close>. Whether such a statement
  raises is decided outside the program (the widget call or the store may fail); \<open>faults\<close>
  is the set of keys whose write statement raises.
\<close>

definition try_setValue :: "string set \<Rightarrow> string \<Rightarrow> setting_value \<Rightarrow> settings_store
    \<Rightarrow> py_exception + settings_store" where
  "try_setValue faults key v st =
     (if key \<in> faults then Inl RuntimeError else Inr (setValue key v st))"

text \<open>A write statement inside its own \<^verbatim>\<open>try\<close>/\<^verbatim>\<open>except Exception\<close>, which logs.\<close>

definition guarded_setValue :: "string set \<Rightarrow> string \<Rightarrow> setting_value \<Rightarrow> app_state \<Rightarrow> app_state" where
  "guarded_setValue faults key v a =
     (case try_setValue faults key v (settings a) of
        Inr st \<Rightarrow> a\<lparr>settings := st\<rparr>
      | Inl e \<Rightarrow> a\<lparr>app_log := app_log a @ [LogError key]\<rparr>)"

text \<open>
  \<^verbatim>\<open>save_state\<close>: nine writes, each in a \<^verbatim>\<open>try\<close> block of its own, then the writes
  of \<^verbatim>\<open>geometry\<close> and \<^verbatim>\<open>windowState\<close> together in one \<^verbatim>\<open>try\<close> block.
\<close>

definition save_state :: "string set \<Rightarrow> window_values \<Rightarrow> app_state \<Rightarrow> app_state" where
  "save_state faults w a =
     (let a1 = guarded_setValue faults ''lily_time_in_room_slider''
                 (IntValue (lily_time_in_room_slider w)) a;
          a2 = guarded_setValue faults ''lily_mood_slider'' (IntValue (lily_mood_slider w)) a1;
          a3 = guarded_setValue faults ''lily_mood_activity_slider''
                 (IntValue (lily_mood_activity_slider w)) a2;
          a4 = guarded_setValue faults ''lily_energy_slider'' (IntValue (lily_energy_slider w)) a3;
          a5 = guarded_setValue faults ''lily_time_in_room'' (IntValue (lily_time_in_room w)) a4;
          a6 = guarded_setValue faults ''lily_mood'' (IntValue (lily_mood w)) a5;
          a7 = guarded_setValue faults ''lily_activity'' (IntValue (lily_activity w)) a6;
          a8 = guarded_setValue faults ''lily_energy'' (IntValue (lily_energy w)) a7;
          a9 = guarded_setValue faults ''lily_notes'' (StrValue (lily_notes_html w)) a8
      in (case try_setValue faults ''geometry'' (BlobValue (saveGeometry w)) (settings a9) of
            Inl e \<Rightarrow> a9\<lparr>app_log := app_log a9 @ [LogError ''An Error has occurred'']\<rparr>
          | Inr st1 \<Rightarrow>
              (case try_setValue faults ''windowState'' (BlobValue (saveState w)) st1 of
                 Inl e \<Rightarrow> a9\<lparr>settings := st1,
                             app_log := app_log a9 @ [LogError ''An Error has occurred'']\<rparr>
               | Inr st2 \<Rightarrow> a9\<lparr>settings := st2\<rparr>)))"

text \<open>
  \<^verbatim>\<open>on_page_changed(index)\<close>: the write of \<^verbatim>\<open>lastPageIndex\<close> stands in no \<^verbatim>\<open>try\<close>
  block, so an exception leaves the method.
\<close>

definition on_page_changed :: "string set \<Rightarrow> int \<Rightarrow> app_state \<Rightarrow> py_exception + app_state" where
  "on_page_changed faults index a =
     (case try_setValue faults ''lastPageIndex'' (IntValue index) (settings a) of
        Inl e \<Rightarrow> Inl e
      | Inr st \<Rightarrow> Inr (a\<lparr>settings := st\<rparr>))"

text \<open>
  \<open>restore_state\<close> hands each value it reads to a widget; the result is the list of widget
  calls made and the log. A read that raises, or a value of a type the widget's setter
  does not take, is caught by the statement's own \<^verbatim>\<open>try\<close> block and logged.
\<close>

datatype widget_call =
    RestoreGeometry bytes
  | SetValue string int
  | SetHtml string
  | RestoreState bytes

type_synonym restored = "widget_call list \<times> log_entry list"

definition restore_int :: "(setting_type \<Rightarrow> setting_value \<Rightarrow> py_exception + setting_value)
    \<Rightarrow> settings_store \<Rightarrow> string \<Rightarrow> restored \<Rightarrow> restored" where
  "restore_int conv st key acc =
     (case getValue conv key (IntValue 0) (Some IntType) st of
        Inr (IntValue i) \<Rightarrow> (fst acc @ [SetValue key i], snd acc)
      | Inr other \<Rightarrow> (fst acc, snd acc @ [LogError key])
      | Inl e \<Rightarrow> (fst acc, snd acc @ [LogError key]))"

definition restore_html :: "(setting_type \<Rightarrow> setting_value \<Rightarrow> py_exception + setting_value)
    \<Rightarrow> settings_store \<Rightarrow> string \<Rightarrow> restored \<Rightarrow> restored" where
  "restore_html conv st key acc =
     (case getValue conv key (StrValue []) (Some StrType) st of
        Inr (StrValue s) \<Rightarrow> (fst acc @ [SetHtml s], snd acc)
      | Inr other \<Rightarrow> (fst acc, snd acc @ [LogError key])
      | Inl e \<Rightarrow> (fst acc, snd acc @ [LogError key]))"

definition restore_blob :: "(setting_type \<Rightarrow> setting_value \<Rightarrow> py_exception + setting_value)
    \<Rightarrow> settings_store \<Rightarrow> string \<Rightarrow> (bytes \<Rightarrow> widget_call) \<Rightarrow> restored \<Rightarrow> restored" where
  "restore_blob conv st key apply_to acc =
     (case getValue conv key (BlobValue []) None st of
        Inr (BlobValue b) \<Rightarrow> (fst acc @ [apply_to b], snd acc)
      | Inr other \<Rightarrow> (fst acc, snd acc @ [LogError key])
      | Inl e \<Rightarrow> (fst acc, snd acc @ [LogError key]))"

definition restore_state :: "(setting_type \<Rightarrow> setting_value \<Rightarrow> py_exception + setting_value)
    \<Rightarrow> settings_store \<Rightarrow> restored" where
  "restore_state conv st =
     restore_blob conv st ''windowState'' RestoreState
       (restore_html conv st ''lily_notes''
         (restore_int conv st ''lily_energy''
           (restore_int conv st ''lily_activity''
             (restore_int conv st ''lily_mood''
               (restore_int conv st ''lily_time_in_room''
                 (restore_int conv st ''lily_energy_slider''
                   (restore_int conv st ''lily_mood_activity_slider''
                     (restore_int conv st ''lily_mood_slider''
                       (restore_int conv st ''lily_time_in_room_slider''
                         (restore_blob conv st ''geometry'' RestoreGeometry ([], [])))))))))))"

text \<open>The widget calls \<open>restore_state\<close> makes when every read returns the saved value.\<close>

definition calls_restoring :: "window_values \<Rightarrow> widget_call list" where
  "calls_restoring w =
     [RestoreGeometry (saveGeometry w),
      SetValue ''lily_time_in_room_slider'' (lily_time_in_room_slider w),
      SetValue ''lily_mood_slider'' (lily_mood_slider w),
      SetValue ''lily_mood_activity_slider'' (lily_mood_activity_slider w),
      SetValue ''lily_energy_slider'' (lily_energy_slider w),
      SetValue ''lily_time_in_room'' (lily_time_in_room w),
      SetValue ''lily_mood'' (lily_mood w),
      SetValue ''lily_activity'' (lily_activity w),
      SetValue ''lily_energy'' (lily_energy w),
      SetHtml (lily_notes_html w),
      RestoreState (saveState w)]"

text \<open>The hardcoded defaults of \<open>restore_state\<close>, as window values.\<close>

definition default_window :: window_values where
  "default_window =
     \<lparr>lily_time_in_room_slider = 0, lily_mood_slider = 0, lily_mood_activity_slider = 0,
      lily_energy_slider = 0, lily_time_in_room = 0, lily_mood = 0, lily_activity = 0,
      lily_energy = 0, lily_notes_html = [], saveGeometry = [], saveState = []\<rparr>"

definition sample_window :: window_values where
  "sample_window =
     \<lparr>lily_time_in_room_slider = 2, lily_mood_slider = 3, lily_mood_activity_slider = 2,
      lily_energy_slider = 4, lily_time_in_room = 2, lily_mood = 3, lily_activity = 2,
      lily_energy = 4, lily_notes_html = ''<p>ate well</p>'', saveGeometry = [1, 217, 208],
      saveState = [0, 255]\<rparr>"

definition empty_settings :: settings_store where
  "empty_settings = \<lparr>cache = Map.empty, disk = Map.empty\<rparr>"

definition fresh_app :: app_state where
  "fresh_app = \<lparr>settings = empty_settings, app_log = []\<rparr>"

text \<open>A conversion that refuses every value of another type.\<close>

definition strict_conv :: "setting_type \<Rightarrow> setting_value \<Rightarrow> py_exception + setting_value" where
  "strict_conv ty v = Inl TypeError"

subsection \<open>MainWindow: the delete action\<close>

text \<open>
  The \<^verbatim>\<open>triggered\<close> signal of \<^verbatim>\<open>action_delete_record\<close> is the list of its connected
  slots, in connection order. Every slot connected here is a closure
  \<^verbatim>\<open>lambda: delete_selected_rows(self, table_name, model_name)\<close>, kept as its two strings.
\<close>

type_synonym slot = "string \<times> string"

definition connect :: "slot \<Rightarrow> slot list \<Rightarrow> slot list" where
  "connect s signal = signal @ [s]"

definition setup_delete_actions :: "slot list \<Rightarrow> slot list" where
  "setup_delete_actions signal =
     connect (''lily_walk_note_table'', ''lily_walk_note_model'')
       (connect (''lily_notes_table'', ''lily_note_model'')
         (connect (''time_in_room_table'', ''lily_room_model'')
           (connect (''lily_mood_table'', ''lily_mood_model'')
             (connect (''lily_diet_table'', ''lily_diet_model'')
               (connect (''lily_walk_table'', ''lily_walk_model'') signal)))))"

datatype invocation = DeleteSelectedRows string string

text \<open>Emitting the signal calls every connected slot once, in connection order.\<close>

definition trigger :: "slot list \<Rightarrow> invocation list" where
  "trigger signal = map (\<lambda>(table_name, model_name). DeleteSelectedRows table_name model_name) signal"

section \<open>Seeding and first creation of the database file\<close>

lemma resolves_after_file_write:
  assumes "files t \<noteq> Some Dir"
  shows "resolves (files(t \<mapsto> File content)) p = resolves files p"
proof -
  have "((files(t \<mapsto> File content)) d = Some Dir) = (files d = Some Dir)" for d
    using assms by simp
  then show ?thesis by (simp add: resolves_def)
qed

lemma os_stat_after_file_write:
  assumes "files t \<noteq> Some Dir"
  shows "os_stat (files(t \<mapsto> File content)) p =
     (if p = t then (if resolves files t then Some (File content) else None) else os_stat files p)"
  using assms by (simp add: os_stat_def resolves_after_file_write)

lemma vacant_target:
  assumes "\<not> os_path_exists files target" and "resolves files target"
  shows "files target = None" and "os_stat files target = None"
  using assms by (simp_all add: os_path_exists_def os_stat_def)

lemma shutil_copy_fresh_target:
  assumes "\<not> os_path_exists files dst"
    and "os_stat files src = Some (File content)"
    and "resolves files dst" and "dst \<notin> refused" and "src \<notin> refused"
  shows "shutil_copy files refused src dst = Inr (files(dst \<mapsto> File content))"
proof -
  have v: "os_stat files dst = None" using assms(1,3) by (rule vacant_target)
  with assms(2) have "src \<noteq> dst" by auto
  with assms v show ?thesis by (simp add: shutil_copy_def)
qed

lemma shutil_copy_refused:
  assumes "\<not> os_path_exists files dst"
    and "os_stat files src = Some (File content)"
    and "\<not> resolves files dst \<or> dst \<in> refused \<or> src \<in> refused"
  shows "\<exists>e. shutil_copy files refused src dst = Inl e"
proof -
  have v: "os_stat files dst = None" using assms(1) by (simp add: os_path_exists_def)
  with assms(2) have "src \<noteq> dst" by auto
  with assms v show ?thesis by (auto simp: shutil_copy_def)
qed

lemmas world_eval_defs =
  template_only_world_def seeded_world_def empty_world_def homeless_world_def
  home_is_a_file_world_def read_only_home_world_def read_only_empty_world_def base_dirs_def os_path_exists_def os_stat_def resolves_def
  ancestors_def

text \<open>
  C1, as stated, fails where the target cannot be written. With the template in place and
  no file at the target path, but the home directory missing, the copy raises, the
  exception is caught and logged, and there is still nothing at the target path. The same
  happens when the home directory exists and the operating system refuses the write.
\<close>

theorem initialize_database_copy_fails_counterexample:
  "\<not> os_path_exists (fs homeless_world) ''/home/u/lily.db''
   \<and> os_stat (fs homeless_world) ''/app/lily.db'' = Some (File [83, 81, 76])
   \<and> \<not> os_path_exists
         (fs (initialize_database ''/app/lily.db'' ''/home/u/lily.db'' homeless_world))
         ''/home/u/lily.db''
   \<and> logged (initialize_database ''/app/lily.db'' ''/home/u/lily.db'' homeless_world)
       = [LogError ''Error: Unable to create database'']
   \<and> \<not> os_path_exists (fs read_only_home_world) ''/home/u/lily.db''
   \<and> os_stat (fs read_only_home_world) ''/app/lily.db'' = Some (File [83, 81, 76])
   \<and> \<not> os_path_exists
         (fs (initialize_database ''/app/lily.db'' ''/home/u/lily.db'' read_only_home_world))
         ''/home/u/lily.db''
   \<and> logged (initialize_database ''/app/lily.db'' ''/home/u/lily.db'' read_only_home_world)
       = [LogError ''Error: Unable to create database'']"
  by (simp add: initialize_database_def shutil_copy_def world_eval_defs)

text \<open>
  C1, amended. When nothing exists at the target path, a template file exists at the
  bundled path, the target's directory exists and the operating system grants the two
  accesses, \<open>initialize_database\<close> copies the template to the target: afterwards the
  target is a file with the template's bytes and nothing else in the file system has
  changed, the copy is the only call made (no connection has been opened yet), nothing is
  logged, and a connection opened on the target afterwards finds the seeded file and
  leaves every byte in place. When something already exists at the target path, no copy
  is made and the file system is as before.
\<close>

theorem initialize_database_seeds_from_template:
  "(\<not> os_path_exists (fs w) target \<and> os_stat (fs w) tpl = Some (File content)
      \<and> resolves (fs w) target \<and> target \<notin> denied w \<and> tpl \<notin> denied w \<longrightarrow>
      fs (initialize_database tpl target w) = (fs w)(target \<mapsto> File content)
    \<and> os_stat (fs (initialize_database tpl target w)) target = Some (File content)
    \<and> os_stat (fs (initialize_database tpl target w)) tpl = Some (File content)
    \<and> calls (initialize_database tpl target w) = calls w @ [ShutilCopy tpl target]
    \<and> logged (initialize_database tpl target w) = logged w
    \<and> sqlite_open (fs (initialize_database tpl target w)) (denied w) target
        = (True, fs (initialize_database tpl target w)))
   \<and> (os_path_exists (fs w) target \<longrightarrow>
      fs (initialize_database tpl target w) = fs w
    \<and> os_stat (fs (initialize_database tpl target w)) target = os_stat (fs w) target
    \<and> calls (initialize_database tpl target w) = calls w)"
proof (intro conjI impI)
  assume h: "\<not> os_path_exists (fs w) target \<and> os_stat (fs w) tpl = Some (File content)
      \<and> resolves (fs w) target \<and> target \<notin> denied w \<and> tpl \<notin> denied w"
  then have cp: "shutil_copy (fs w) (denied w) tpl target = Inr ((fs w)(target \<mapsto> File content))"
    by (simp add: shutil_copy_fresh_target)
  from h have v: "fs w target = None" "os_stat (fs w) target = None"
    by (simp_all add: vacant_target)
  from h v have ne: "tpl \<noteq> target" by auto
  from h have ex: "os_path_exists (fs w) tpl" by (simp add: os_path_exists_def)
  have run: "initialize_database tpl target w =
      w\<lparr>fs := (fs w)(target \<mapsto> File content), calls := calls w @ [ShutilCopy tpl target]\<rparr>"
    using h cp ex by (simp add: initialize_database_def)
  have nd: "fs w target \<noteq> Some Dir" using v by simp
  show "fs (initialize_database tpl target w) = (fs w)(target \<mapsto> File content)"
    by (simp add: run)
  show t: "os_stat (fs (initialize_database tpl target w)) target = Some (File content)"
    using h by (simp add: run os_stat_after_file_write [of "fs w" target, OF nd])
  show "os_stat (fs (initialize_database tpl target w)) tpl = Some (File content)"
    using h ne by (simp add: run os_stat_after_file_write [of "fs w" target, OF nd])
  show "calls (initialize_database tpl target w) = calls w @ [ShutilCopy tpl target]"
    by (simp add: run)
  show "logged (initialize_database tpl target w) = logged w"
    by (simp add: run)
  show "sqlite_open (fs (initialize_database tpl target w)) (denied w) target
        = (True, fs (initialize_database tpl target w))"
    using h t by (simp add: sqlite_open_def)
next
  assume "os_path_exists (fs w) target"
  then have "initialize_database tpl target w = w"
    by (simp add: initialize_database_def)
  then show "fs (initialize_database tpl target w) = fs w"
    and "os_stat (fs (initialize_database tpl target w)) target = os_stat (fs w) target"
    and "calls (initialize_database tpl target w) = calls w"
    by simp_all
qed

theorem initialize_database_seeds_from_template_witness:
  "\<not> os_path_exists (fs template_only_world) ''/home/u/lily.db''
   \<and> os_stat (fs template_only_world) ''/app/lily.db'' = Some (File [83, 81, 76])
   \<and> resolves (fs template_only_world) ''/home/u/lily.db''
   \<and> ''/home/u/lily.db'' \<notin> denied template_only_world
   \<and> ''/app/lily.db'' \<notin> denied template_only_world
   \<and> os_stat (fs (initialize_database ''/app/lily.db'' ''/home/u/lily.db'' template_only_world))
        ''/home/u/lily.db'' = Some (File [83, 81, 76])
   \<and> calls (initialize_database ''/app/lily.db'' ''/home/u/lily.db'' template_only_world)
        = [ShutilCopy ''/app/lily.db'' ''/home/u/lily.db'']
   \<and> os_path_exists (fs seeded_world) ''/home/u/lily.db''
   \<and> os_stat (fs (initialize_database ''/app/lily.db'' ''/home/u/lily.db'' seeded_world))
        ''/home/u/lily.db'' = Some (File [7])
   \<and> calls (initialize_database ''/app/lily.db'' ''/home/u/lily.db'' seeded_world) = []"
proof -
  have a: "\<not> os_path_exists (fs template_only_world) ''/home/u/lily.db''"
       "os_stat (fs template_only_world) ''/app/lily.db'' = Some (File [83, 81, 76])"
       "resolves (fs template_only_world) ''/home/u/lily.db''"
       "''/home/u/lily.db'' \<notin> denied template_only_world"
       "''/app/lily.db'' \<notin> denied template_only_world"
    by (simp_all add: world_eval_defs)
  have b: "os_path_exists (fs seeded_world) ''/home/u/lily.db''"
    by (simp add: world_eval_defs)
  have c: "os_stat (fs seeded_world) ''/home/u/lily.db'' = Some (File [7])"
       "calls seeded_world = []" "calls template_only_world = []"
    by (simp_all add: world_eval_defs)
  from a
    initialize_database_seeds_from_template
      [of template_only_world "''/home/u/lily.db''" "''/app/lily.db''" "[83, 81, 76]"]
  have t: "os_stat (fs (initialize_database ''/app/lily.db'' ''/home/u/lily.db'' template_only_world))
        ''/home/u/lily.db'' = Some (File [83, 81, 76])
    \<and> calls (initialize_database ''/app/lily.db'' ''/home/u/lily.db'' template_only_world)
        = calls template_only_world @ [ShutilCopy ''/app/lily.db'' ''/home/u/lily.db'']"
    by blast
  from b
    initialize_database_seeds_from_template
      [of seeded_world "''/home/u/lily.db''" "''/app/lily.db''" "[]"]
  have k: "os_stat (fs (initialize_database ''/app/lily.db'' ''/home/u/lily.db'' seeded_world))
        ''/home/u/lily.db'' = os_stat (fs seeded_world) ''/home/u/lily.db''
    \<and> calls (initialize_database ''/app/lily.db'' ''/home/u/lily.db'' seeded_world)
        = calls seeded_world"
    by blast
  from a b t k show ?thesis by (simp add: c)
qed

text \<open>
  Where the copy cannot be made (the target's directory is missing or is a regular file,
  or an access is refused), the exception is caught: the file system is unchanged, the
  error is logged and no target file appears.
\<close>

lemma initialize_database_copy_refused:
  assumes "\<not> os_path_exists (fs w) target"
    and "os_stat (fs w) tpl = Some (File content)"
    and "\<not> resolves (fs w) target \<or> target \<in> denied w \<or> tpl \<in> denied w"
  shows "fs (initialize_database tpl target w) = fs w"
    and "logged (initialize_database tpl target w)
          = logged w @ [LogError ''Error: Unable to create database'']"
    and "\<not> os_path_exists (fs (initialize_database tpl target w)) target"
proof -
  from shutil_copy_refused [OF assms] obtain e
    where e: "shutil_copy (fs w) (denied w) tpl target = Inl e" by blast
  from assms(2) have ex: "os_path_exists (fs w) tpl" by (simp add: os_path_exists_def)
  have run: "initialize_database tpl target w =
      w\<lparr>calls := calls w @ [ShutilCopy tpl target],
        logged := logged w @ [LogError ''Error: Unable to create database'']\<rparr>"
    using assms(1) ex e by (simp add: initialize_database_def)
  show "fs (initialize_database tpl target w) = fs w" by (simp add: run)
  show "logged (initialize_database tpl target w)
          = logged w @ [LogError ''Error: Unable to create database'']"
    by (simp add: run)
  show "\<not> os_path_exists (fs (initialize_database tpl target w)) target"
    using assms(1) by (simp add: run)
qed

text \<open>
  C10, as stated, fails where the target cannot be written. With neither file in place
  and the home directory being a regular file, the connection cannot be opened: the error
  is logged and nothing is created. The same happens when the home directory exists and
  the operating system refuses the write.
\<close>

theorem initialize_database_create_fails_counterexample:
  "\<not> os_path_exists (fs home_is_a_file_world) ''/home/u/lily.db''
   \<and> \<not> os_path_exists (fs home_is_a_file_world) ''/app/lily.db''
   \<and> fs (initialize_database ''/app/lily.db'' ''/home/u/lily.db'' home_is_a_file_world)
       = fs home_is_a_file_world
   \<and> logged (initialize_database ''/app/lily.db'' ''/home/u/lily.db'' home_is_a_file_world)
       = [LogError ''Error: Unable to create database'']
   \<and> \<not> os_path_exists (fs read_only_empty_world) ''/home/u/lily.db''
   \<and> \<not> os_path_exists (fs read_only_empty_world) ''/app/lily.db''
   \<and> fs (initialize_database ''/app/lily.db'' ''/home/u/lily.db'' read_only_empty_world)
       = fs read_only_empty_world
   \<and> logged (initialize_database ''/app/lily.db'' ''/home/u/lily.db'' read_only_empty_world)
       = [LogError ''Error: Unable to create database'']"
  by (simp add: initialize_database_def sqlite_open_def world_eval_defs)

text \<open>
  C10, amended. When neither the target nor the template exists, the target's directory exists
  and the path may be written, \<open>initialize_database\<close> opens a connection on the target
  path, which creates an empty file there and changes nothing else, and closes it;
  nothing is logged. When the target path already exists, the whole state is returned as
  it was: no file-system change, no call, no log entry.
\<close>

theorem initialize_database_creates_empty_or_keeps:
  "(\<not> os_path_exists (fs w) target \<and> \<not> os_path_exists (fs w) tpl
      \<and> resolves (fs w) target \<and> target \<notin> denied w \<longrightarrow>
      fs (initialize_database tpl target w) = (fs w)(target \<mapsto> File [])
    \<and> os_stat (fs (initialize_database tpl target w)) target = Some (File [])
    \<and> calls (initialize_database tpl target w) = calls w @ [DbOpen target, DbClose target]
    \<and> logged (initialize_database tpl target w) = logged w)
   \<and> (os_path_exists (fs w) target \<longrightarrow> initialize_database tpl target w = w)"
proof (intro conjI impI)
  assume h: "\<not> os_path_exists (fs w) target \<and> \<not> os_path_exists (fs w) tpl
      \<and> resolves (fs w) target \<and> target \<notin> denied w"
  then have v: "fs w target = None" "os_stat (fs w) target = None"
    by (simp_all add: vacant_target)
  have run: "initialize_database tpl target w =
      w\<lparr>fs := (fs w)(target \<mapsto> File []), calls := calls w @ [DbOpen target, DbClose target],
        logged := logged w\<rparr>"
    using h v by (simp add: initialize_database_def sqlite_open_def)
  have nd: "fs w target \<noteq> Some Dir" using v by simp
  show "fs (initialize_database tpl target w) = (fs w)(target \<mapsto> File [])"
    by (simp add: run)
  show "os_stat (fs (initialize_database tpl target w)) target = Some (File [])"
    using h by (simp add: run os_stat_after_file_write [of "fs w" target, OF nd])
  show "calls (initialize_database tpl target w) = calls w @ [DbOpen target, DbClose target]"
    by (simp add: run)
  show "logged (initialize_database tpl target w) = logged w"
    by (simp add: run)
next
  assume "os_path_exists (fs w) target"
  then show "initialize_database tpl target w = w"
    by (simp add: initialize_database_def)
qed

theorem initialize_database_creates_empty_or_keeps_witness:
  "\<not> os_path_exists (fs empty_world) ''/home/u/lily.db''
   \<and> \<not> os_path_exists (fs empty_world) ''/app/lily.db''
   \<and> resolves (fs empty_world) ''/home/u/lily.db''
   \<and> ''/home/u/lily.db'' \<notin> denied empty_world
   \<and> os_stat (fs (initialize_database ''/app/lily.db'' ''/home/u/lily.db'' empty_world))
        ''/home/u/lily.db'' = Some (File [])
   \<and> calls (initialize_database ''/app/lily.db'' ''/home/u/lily.db'' empty_world)
        = [DbOpen ''/home/u/lily.db'', DbClose ''/home/u/lily.db'']
   \<and> os_path_exists (fs seeded_world) ''/home/u/lily.db''
   \<and> initialize_database ''/app/lily.db'' ''/home/u/lily.db'' seeded_world = seeded_world"
proof -
  have a: "\<not> os_path_exists (fs empty_world) ''/home/u/lily.db''"
       "\<not> os_path_exists (fs empty_world) ''/app/lily.db''"
       "resolves (fs empty_world) ''/home/u/lily.db''"
       "''/home/u/lily.db'' \<notin> denied empty_world"
       "calls empty_world = []"
    by (simp_all add: world_eval_defs)
  have b: "os_path_exists (fs seeded_world) ''/home/u/lily.db''"
    by (simp add: world_eval_defs)
  from a
    initialize_database_creates_empty_or_keeps
      [of empty_world "''/home/u/lily.db''" "''/app/lily.db''"]
  have t: "os_stat (fs (initialize_database ''/app/lily.db'' ''/home/u/lily.db'' empty_world))
        ''/home/u/lily.db'' = Some (File [])
    \<and> calls (initialize_database ''/app/lily.db'' ''/home/u/lily.db'' empty_world)
        = calls empty_world @ [DbOpen ''/home/u/lily.db'', DbClose ''/home/u/lily.db'']"
    by blast
  from b
    initialize_database_creates_empty_or_keeps
      [of seeded_world "''/home/u/lily.db''" "''/app/lily.db''"]
  have k: "initialize_database ''/app/lily.db'' ''/home/u/lily.db'' seeded_world = seeded_world"
    by blast
  from a b t k show ?thesis by simp
qed

text \<open>
  Where the file cannot be created (the target's directory is missing or is a regular
  file, or writing is refused), \<^verbatim>\<open>db.open()\<close> returns false: the error is logged, the
  connection is closed all the same and the file system is unchanged.
\<close>

lemma initialize_database_create_refused:
  assumes "\<not> os_path_exists (fs w) target" and "\<not> os_path_exists (fs w) tpl"
    and "\<not> resolves (fs w) target \<or> target \<in> denied w"
  shows "initialize_database tpl target w =
      w\<lparr>calls := calls w @ [DbOpen target, DbClose target],
        logged := logged w @ [LogError ''Error: Unable to create database'']\<rparr>"
proof -
  have v: "os_stat (fs w) target = None" using assms(1) by (simp add: os_path_exists_def)
  show ?thesis using assms v by (auto simp: initialize_database_def sqlite_open_def)
qed

section \<open>Schema creation\<close>





lemmas setup_defs =
  setup_tables_def setup_lily_notes_table_def setup_time_in_room_table_def
  setup_lily_diet_table_def setup_lily_mood_table_def setup_wiggles_walks_table_def
  setup_lily_walk_notes_table_def









section \<open>Inserting and re-binding\<close>

lemma addBindValue_fits:
  "fits_int64 v \<Longrightarrow> addBindValue ov v q = Inr (q\<lparr>boundValues := boundValues q @ [v]\<rparr>)"
  by (cases v) (simp_all add: addBindValue_def)

lemma addBindValue_oversized:
  assumes "\<not> fits_int64 v" and "addBindValue ov v q = Inr q'"
  shows "\<exists>v'. fits_int64 v' \<and> v' \<noteq> v \<and> boundValues q' = boundValues q @ [v']"
  using assms
  by (cases v) (auto simp: addBindValue_def fits_int64_def split: sum.splits if_splits)

lemma bind_each_fits:
  "list_all fits_int64 vs \<Longrightarrow>
   bind_each ov vs q = (None, q\<lparr>boundValues := boundValues q @ vs\<rparr>)"
  by (induction vs arbitrary: q) (simp_all add: addBindValue_fits)



lemma query_exec_keeps_log: "dm_log (snd (query_exec d)) = dm_log d"
  by (auto simp: query_exec_def split: option.splits sum.splits)

lemma prepared_and_bound:
  "list_all fits_int64 vs \<Longrightarrow>
   bind_each ov vs (query_prepare stmt q) = (None, q\<lparr>lastQuery := Some stmt, boundValues := vs\<rparr>)"
  by (simp add: bind_each_fits query_prepare_def)

lemma map_of_update_table:
  "map_of ts name = Some t \<Longrightarrow> map_of (update_table name t' ts) = (map_of ts)(name \<mapsto> t')"
  by (induction ts) (auto simp: fun_eq_iff)

lemma next_rowid_Some:
  assumes "next_rowid t = Some i"
  shows "i = Max (set (seq t # map fst (rows t))) + 1" and "i \<le> max_rowid"
proof -
  have m: "fold max (map fst (rows t)) (seq t) = Max (set (seq t # map fst (rows t)))"
    by (simp only: Max.set_eq_fold)
  from assms have i: "i = fold max (map fst (rows t)) (seq t) + 1"
    and b: "fold max (map fst (rows t)) (seq t) < max_rowid"
    by (auto simp: next_rowid_def Let_def split: if_splits)
  show "i = Max (set (seq t # map fst (rows t))) + 1" by (simp only: i m)
  show "i \<le> max_rowid" using i b by linarith
qed

lemma next_rowid_above_seq:
  assumes "next_rowid t = Some i"
  shows "seq t < i"
proof -
  have "seq t \<le> Max (set (seq t # map fst (rows t)))" by (rule Max_ge) simp_all
  then show ?thesis unfolding next_rowid_Some(1) [OF assms] by linarith
qed

lemma next_rowid_above_rows:
  assumes "next_rowid t = Some i" and "r \<in> set (rows t)"
  shows "fst r < i"
proof -
  from assms(2) have "fst r \<in> set (seq t # map fst (rows t))" by simp
  then have "fst r \<le> Max (set (seq t # map fst (rows t)))" by (intro Max_ge) simp_all
  then show ?thesis unfolding next_rowid_Some(1) [OF assms(1)] by linarith
qed

lemma insert_into_runs:
  assumes "isOpen (db dm)"
    and "map_of (tables (db dm)) name = Some t"
    and "list_all (\<lambda>c. c \<in> set (map fst (columns t))) names"
    and "count_list sql CHR ''?'' = length vs"
    and "n = length vs"
    and "length names = length vs"
    and "list_all fits_int64 vs"
    and "next_rowid t = Some i"
  shows "db (insert_into ov label sql (InsertInto name names n) vs dm) =
           (db dm)\<lparr>tables := update_table name (append_row i names vs t) (tables (db dm))\<rparr>"
    and "dm_log (insert_into ov label sql (InsertInto name names n) vs dm) = dm_log dm"
  using assms
  by (simp_all add: insert_into_def check_bind_count_def prepared_and_bound query_exec_def
      sqlite_step_def)



lemmas insert_method_defs =
  insert_into_lily_notes_table_def insert_into_time_in_room_table_def
  insert_into_lily_diet_table_def insert_into_lily_mood_table_def
  insert_into_wiggles_walks_table_def insert_into_lily_walk_notes_table_def

lemmas insert_sql_defs =
  lily_notes_insert_sql_def lily_in_room_insert_sql_def lily_diet_insert_sql_def
  lily_mood_insert_sql_def lily_walk_insert_sql_def lily_walk_notes_insert_sql_def

lemmas bind_values_defs =
  lily_notes_bind_values_def lily_in_room_bind_values_def lily_diet_bind_values_def
  lily_mood_bind_values_def lily_walk_bind_values_def lily_walk_notes_bind_values_def

lemmas columns_defs =
  lily_notes_columns_def lily_in_room_columns_def lily_diet_columns_def
  lily_mood_columns_def lily_walk_columns_def lily_walk_notes_columns_def


lemma run_insert_runs:
  assumes "isOpen (db dm)"
    and "map_of (tables (db dm)) (call_table c) = Some t"
    and "columns t = call_columns c"
    and "list_all fits_int64 (call_fields c)"
    and "next_rowid t = Some i"
  shows "db (run_insert ov c dm) =
           (db dm)\<lparr>tables := update_table (call_table c)
                      (t\<lparr>rows := rows t @ [(i, call_fields c)], seq := i\<rparr>) (tables (db dm))\<rparr>"
    and "dm_log (run_insert ov c dm) = dm_log dm"
proof -
  have "db (run_insert ov c dm) =
           (db dm)\<lparr>tables := update_table (call_table c)
                      (t\<lparr>rows := rows t @ [(i, call_fields c)], seq := i\<rparr>) (tables (db dm))\<rparr>
        \<and> dm_log (run_insert ov c dm) = dm_log dm"
  proof (cases c)
    case (NotesCall d tm n)
    with assms show ?thesis
      by (simp add: insert_into_lily_notes_table_def lily_notes_bind_values_def
          lily_notes_insert_sql_def lily_notes_columns_def append_row_def row_values_def
          insert_into_runs [where t = t and i = i])
  next
    case (TimeInRoomCall d tm r)
    with assms show ?thesis
      by (simp add: insert_into_time_in_room_table_def lily_in_room_bind_values_def
          lily_in_room_insert_sql_def lily_in_room_columns_def append_row_def row_values_def
          insert_into_runs [where t = t and i = i])
  next
    case (DietCall d tm)
    with assms show ?thesis
      by (simp add: insert_into_lily_diet_table_def lily_diet_bind_values_def
          lily_diet_insert_sql_def lily_diet_columns_def append_row_def row_values_def
          insert_into_runs [where t = t and i = i])
  next
    case (MoodCall d tm m a e)
    with assms show ?thesis
      by (simp add: insert_into_lily_mood_table_def lily_mood_bind_values_def
          lily_mood_insert_sql_def lily_mood_columns_def append_row_def row_values_def
          insert_into_runs [where t = t and i = i])
  next
    case (WalkCall d tm b g)
    with assms show ?thesis
      by (simp add: insert_into_wiggles_walks_table_def lily_walk_bind_values_def
          lily_walk_insert_sql_def lily_walk_columns_def append_row_def row_values_def
          insert_into_runs [where t = t and i = i])
  next
    case (WalkNotesCall d tm n)
    with assms show ?thesis
      by (simp add: insert_into_lily_walk_notes_table_def lily_walk_notes_bind_values_def
          lily_walk_notes_insert_sql_def lily_walk_notes_columns_def append_row_def
          row_values_def insert_into_runs [where t = t and i = i])
  qed
  then show "db (run_insert ov c dm) =
           (db dm)\<lparr>tables := update_table (call_table c)
                      (t\<lparr>rows := rows t @ [(i, call_fields c)], seq := i\<rparr>) (tables (db dm))\<rparr>"
    and "dm_log (run_insert ov c dm) = dm_log dm"
    by simp_all
qed

lemmas store_eval_defs =
  used_then_emptied_def exhausted_mood_store_def deleteRows_def insert_method_defs
  insert_into_def check_bind_count_def insert_sql_defs bind_values_defs query_exec_def
  addBindValue_def fits_int64_def query_prepare_def sqlite_step_def DataManager_init_def
  setup_defs create_table_def query_exec_sql_def table_names_def append_row_def
  next_rowid_def max_rowid_def row_values_def columns_defs bind_table_def Let_def
  refuse_oversized_def

text \<open>
  C3, as stated, fails, in two ways. In a store that was set up, received one mood
  record and had that record deleted, the mood table is empty; the record of the claim,
  inserted there, comes back from the re-bound table with id 2, not 1. In a store whose
  empty mood table has given out the largest 64-bit id, the insert is refused and the
  re-bound table stays empty.
\<close>

theorem insert_mood_into_emptied_table_counterexample:
  "bind_table ''lily_mood_table'' used_then_emptied = []
   \<and> bind_table ''lily_mood_table''
        (insert_into_lily_mood_table refuse_oversized ''2024-01-01'' ''09:00'' 3 2 4 used_then_emptied)
      = [(2, [SqlText ''2024-01-01'', SqlText ''09:00'', SqlInt 3, SqlInt 2, SqlInt 4])]
   \<and> bind_table ''lily_mood_table'' exhausted_mood_store = []
   \<and> bind_table ''lily_mood_table''
        (insert_into_lily_mood_table refuse_oversized ''2024-01-01'' ''09:00'' 3 2 4
           exhausted_mood_store) = []"
  by (simp add: store_eval_defs)

text \<open>
  C3, amended. Take any call of one of the six insert methods, on an open store whose
  table for that category has the columns \<open>setup_tables\<close> gives it, with integer fields
  inside the signed 64-bit range (the integers a SQLite INTEGER column holds as they are)
  and the table's id counter below the largest 64-bit id, whatever the binding layer does
  with an integer outside that range.
  Re-binding the table after the call yields the rows bound before followed by exactly one
  new row holding the fields passed; the new row's id is larger than the id of every row
  present and than every id the table has given out so far, and it becomes the table's
  counter, so later ids are larger still. The other tables are bound as before and nothing
  is logged. If the call is the mood record of the claim and the mood table is empty and
  has never held a row, the re-bound table is the single row with id 1.
\<close>

theorem insert_then_bind:
  assumes "isOpen (db dm)"
    and "map_of (tables (db dm)) (call_table c) = Some t"
    and "columns t = call_columns c"
    and "list_all fits_int64 (call_fields c)"
    and "next_rowid t = Some i"
  shows "bind_table (call_table c) (run_insert ov c dm)
        = bind_table (call_table c) dm @ [(i, call_fields c)]
    \<and> (\<forall>r \<in> set (bind_table (call_table c) dm). fst r < i)
    \<and> seq t < i
    \<and> map_of (tables (db (run_insert ov c dm))) (call_table c)
        = Some (t\<lparr>rows := rows t @ [(i, call_fields c)], seq := i\<rparr>)
    \<and> (\<forall>name. name \<noteq> call_table c \<longrightarrow>
          bind_table name (run_insert ov c dm) = bind_table name dm)
    \<and> dm_log (run_insert ov c dm) = dm_log dm
    \<and> (c = MoodCall ''2024-01-01'' ''09:00'' 3 2 4 \<and> rows t = [] \<and> seq t = 0 \<longrightarrow>
         bind_table ''lily_mood_table''
           (insert_into_lily_mood_table ov ''2024-01-01'' ''09:00'' 3 2 4 dm)
         = [(1, [SqlText ''2024-01-01'', SqlText ''09:00'', SqlInt 3, SqlInt 2, SqlInt 4])])"
proof (intro conjI ballI allI impI)
  note run = run_insert_runs [OF assms]
  have before: "bind_table (call_table c) dm = rows t"
    using assms(1,2) by (simp add: bind_table_def)
  have tab: "map_of (tables (db (run_insert ov c dm))) =
      (map_of (tables (db dm)))(call_table c \<mapsto> t\<lparr>rows := rows t @ [(i, call_fields c)], seq := i\<rparr>)"
    using assms(2) by (simp add: run(1) map_of_update_table)
  have o: "isOpen (db (run_insert ov c dm))"
    using assms(1) by (simp add: run(1))
  have grown: "bind_table (call_table c) (run_insert ov c dm) = rows t @ [(i, call_fields c)]"
    using o by (simp add: bind_table_def tab)
  show after: "bind_table (call_table c) (run_insert ov c dm)
        = bind_table (call_table c) dm @ [(i, call_fields c)]"
    by (simp only: before grown)
  show "seq t < i" using assms(5) by (rule next_rowid_above_seq)
  show "map_of (tables (db (run_insert ov c dm))) (call_table c)
        = Some (t\<lparr>rows := rows t @ [(i, call_fields c)], seq := i\<rparr>)"
    by (simp add: tab)
  show "dm_log (run_insert ov c dm) = dm_log dm" by (rule run(2))
  show "fst r < i" if "r \<in> set (bind_table (call_table c) dm)" for r
    using that next_rowid_above_rows [OF assms(5), of r] by (simp only: before)
  show "bind_table name (run_insert ov c dm) = bind_table name dm"
    if "name \<noteq> call_table c" for name
    using that o assms(1) by (simp add: bind_table_def tab)
  show "bind_table ''lily_mood_table''
           (insert_into_lily_mood_table ov ''2024-01-01'' ''09:00'' 3 2 4 dm)
         = [(1, [SqlText ''2024-01-01'', SqlText ''09:00'', SqlInt 3, SqlInt 2, SqlInt 4])]"
    if h: "c = MoodCall ''2024-01-01'' ''09:00'' 3 2 4 \<and> rows t = [] \<and> seq t = 0"
  proof -
    from h assms(5) have "i = 1"
      by (simp add: next_rowid_def max_rowid_def)
    with grown h show ?thesis by simp
  qed
qed

theorem insert_then_bind_witness:
  "isOpen (db (DataManager_init True []))
   \<and> map_of (tables (db (DataManager_init True [])))
        (call_table (MoodCall ''2024-01-01'' ''09:00'' 3 2 4))
       = Some \<lparr>columns = lily_mood_columns, rows = [], seq = 0\<rparr>
   \<and> list_all fits_int64 (call_fields (MoodCall ''2024-01-01'' ''09:00'' 3 2 4))
   \<and> next_rowid \<lparr>columns = lily_mood_columns, rows = [], seq = 0\<rparr> = Some 1
   \<and> bind_table ''lily_mood_table'' (DataManager_init True []) = []
   \<and> ''lily_notes_table'' \<noteq> call_table (MoodCall ''2024-01-01'' ''09:00'' 3 2 4)
   \<and> bind_table ''lily_notes_table''
         (run_insert refuse_oversized (MoodCall ''2024-01-01'' ''09:00'' 3 2 4) (DataManager_init True []))
       = bind_table ''lily_notes_table'' (DataManager_init True [])
   \<and> bind_table ''lily_mood_table''
         (insert_into_lily_mood_table refuse_oversized ''2024-01-01'' ''09:00'' 3 2 4 (DataManager_init True []))
       = [(1, [SqlText ''2024-01-01'', SqlText ''09:00'', SqlInt 3, SqlInt 2, SqlInt 4])]"
proof -
  let ?c = "MoodCall ''2024-01-01'' ''09:00'' 3 2 4"
  let ?t = "\<lparr>columns = lily_mood_columns, rows = [], seq = 0\<rparr>"
  have o: "isOpen (db (DataManager_init True []))"
    and t: "map_of (tables (db (DataManager_init True []))) (call_table ?c) = Some ?t"
    and b: "bind_table ''lily_mood_table'' (DataManager_init True []) = []"
    by (simp_all add: store_eval_defs)
  have k: "columns ?t = call_columns ?c" by simp
  have f: "list_all fits_int64 (call_fields ?c)" by (simp add: fits_int64_def)
  have n: "next_rowid ?t = Some 1" by (simp add: next_rowid_def max_rowid_def)
  have d: "''lily_notes_table'' \<noteq> call_table ?c" by simp
  have e: "?c = MoodCall ''2024-01-01'' ''09:00'' 3 2 4 \<and> rows ?t = [] \<and> seq ?t = 0" by simp
  from insert_then_bind [OF o t k f n] d e
  have "bind_table ''lily_notes_table'' (run_insert refuse_oversized ?c (DataManager_init True []))
          = bind_table ''lily_notes_table'' (DataManager_init True [])
      \<and> bind_table ''lily_mood_table''
           (insert_into_lily_mood_table refuse_oversized ''2024-01-01'' ''09:00'' 3 2 4 (DataManager_init True []))
         = [(1, [SqlText ''2024-01-01'', SqlText ''09:00'', SqlInt 3, SqlInt 2, SqlInt 4])]"
    by blast
  with o t f n b d show ?thesis by blast
qed

section \<open>The bind-count guard\<close>





section \<open>Deleting with an empty selection\<close>

text \<open>
  C7. For every table name and every store, deleting the empty set of row identities
  returns the store as it was: the table's bound rows are the same and nothing is logged.
  An empty selection resolves to the empty set, so deleting the selection is the same no-op.
\<close>

theorem deleteRows_empty_selection:
  "deleteRows tableName {} dm = dm
   \<and> bind_table tableName (deleteRows tableName {} dm) = bind_table tableName dm
   \<and> selectedRowIdentities model [] = {}
   \<and> deleteRows tableName (selectedRowIdentities model []) dm = dm"
  by (simp add: deleteRows_def selectedRowIdentities_def)

section \<open>Closing the connection\<close>

text \<open>
  C8. \<open>close_database\<close> closes the connection exactly when it is open and touches
  nothing else of the store: tables and query are kept. It logs only information lines,
  the second one only when it did close. A second call finds the connection closed and
  leaves the database and the query as the first call left them.
\<close>

theorem close_database_idempotent:
  "db (close_database dm) = (if isOpen (db dm) then (db dm)\<lparr>isOpen := False\<rparr> else db dm)
   \<and> tables (db (close_database dm)) = tables (db dm)
   \<and> isOpen (db (close_database dm)) = False
   \<and> query (close_database dm) = query dm
   \<and> dm_log (close_database dm)
       = dm_log dm @ LogInfo ''if database is open''
           # (if isOpen (db dm) then [LogInfo ''the database is closed successfully''] else [])
   \<and> db (close_database (close_database dm)) = db (close_database dm)
   \<and> query (close_database (close_database dm)) = query (close_database dm)
   \<and> dm_log (close_database (close_database dm))
       = dm_log (close_database dm) @ [LogInfo ''if database is open'']
   \<and> filter is_failure_entry (dm_log (close_database (close_database dm)))
       = filter is_failure_entry (dm_log dm)"
  by (simp add: close_database_def Let_def)

section \<open>Settings\<close>

lemma round_trip_cache:
  "cache (reload (flush (setValue k v st))) k = Some v"
  by (simp add: reload_def flush_def setValue_def)

lemma guarded_setValue_no_fault:
  "guarded_setValue {} key v a = a\<lparr>settings := setValue key v (settings a)\<rparr>"
  by (simp add: guarded_setValue_def try_setValue_def)

lemma save_state_no_fault_cache:
  "cache (settings (save_state {} w a)) =
     (cache (settings a))
       (''lily_time_in_room_slider'' \<mapsto> IntValue (lily_time_in_room_slider w),
        ''lily_mood_slider'' \<mapsto> IntValue (lily_mood_slider w),
        ''lily_mood_activity_slider'' \<mapsto> IntValue (lily_mood_activity_slider w),
        ''lily_energy_slider'' \<mapsto> IntValue (lily_energy_slider w),
        ''lily_time_in_room'' \<mapsto> IntValue (lily_time_in_room w),
        ''lily_mood'' \<mapsto> IntValue (lily_mood w),
        ''lily_activity'' \<mapsto> IntValue (lily_activity w),
        ''lily_energy'' \<mapsto> IntValue (lily_energy w),
        ''lily_notes'' \<mapsto> StrValue (lily_notes_html w),
        ''geometry'' \<mapsto> BlobValue (saveGeometry w),
        ''windowState'' \<mapsto> BlobValue (saveState w))"
  by (simp add: save_state_def guarded_setValue_no_fault try_setValue_def setValue_def Let_def)

lemma restore_int_found:
  assumes "cache st key = Some (IntValue i)"
  shows "restore_int conv st key acc = (fst acc @ [SetValue key i], snd acc)"
  using assms by (simp add: restore_int_def getValue_def coerce_def)

lemma restore_html_found:
  assumes "cache st key = Some (StrValue s)"
  shows "restore_html conv st key acc = (fst acc @ [SetHtml s], snd acc)"
  using assms by (simp add: restore_html_def getValue_def coerce_def)

lemma restore_blob_found:
  assumes "cache st key = Some (BlobValue b)"
  shows "restore_blob conv st key apply_to acc = (fst acc @ [apply_to b], snd acc)"
  using assms by (simp add: restore_blob_def getValue_def coerce_def)

lemma restore_state_of_saved:
  assumes "cache st ''geometry'' = Some (BlobValue (saveGeometry w))"
    and "cache st ''lily_time_in_room_slider'' = Some (IntValue (lily_time_in_room_slider w))"
    and "cache st ''lily_mood_slider'' = Some (IntValue (lily_mood_slider w))"
    and "cache st ''lily_mood_activity_slider'' = Some (IntValue (lily_mood_activity_slider w))"
    and "cache st ''lily_energy_slider'' = Some (IntValue (lily_energy_slider w))"
    and "cache st ''lily_time_in_room'' = Some (IntValue (lily_time_in_room w))"
    and "cache st ''lily_mood'' = Some (IntValue (lily_mood w))"
    and "cache st ''lily_activity'' = Some (IntValue (lily_activity w))"
    and "cache st ''lily_energy'' = Some (IntValue (lily_energy w))"
    and "cache st ''lily_notes'' = Some (StrValue (lily_notes_html w))"
    and "cache st ''windowState'' = Some (BlobValue (saveState w))"
  shows "restore_state conv st = (calls_restoring w, [])"
  unfolding restore_state_def calls_restoring_def
  by (simp add: restore_int_found [OF assms(2)] restore_int_found [OF assms(3)]
      restore_int_found [OF assms(4)] restore_int_found [OF assms(5)]
      restore_int_found [OF assms(6)] restore_int_found [OF assms(7)]
      restore_int_found [OF assms(8)] restore_int_found [OF assms(9)]
      restore_html_found [OF assms(10)] restore_blob_found [OF assms(1)]
      restore_blob_found [OF assms(11)])

lemma restore_state_after_save:
  "restore_state conv (reload (flush (settings (save_state {} w a)))) = (calls_restoring w, [])"
proof -
  have c: "cache (reload (flush (settings (save_state {} w a)))) = cache (settings (save_state {} w a))"
    by (simp add: reload_def flush_def)
  show ?thesis
    by (rule restore_state_of_saved) (simp_all add: c save_state_no_fault_cache)
qed

lemma restore_state_defaults:
  "restore_state conv empty_settings = (calls_restoring default_window, [])"
  by (simp add: restore_state_def calls_restoring_def default_window_def empty_settings_def
      restore_int_def restore_html_def restore_blob_def getValue_def coerce_def)

text \<open>
  C5. For every key and every value (an integer, a string or a binary blob), setting the
  value, flushing, reloading and reading the key back with the value's own type, or with
  no type, returns the value, whatever the default. A key the store does not hold reads
  as the supplied default coerced to the expected type, and a default that already has
  that type is returned as it is. On the code: what \<open>save_state\<close> writes,
  \<open>restore_state\<close> reads back after a flush and a reload, key by key and type by type
  (eight integers, the notes string, two blobs), and on a store with no keys it applies
  its hardcoded defaults.
\<close>

theorem settings_round_trip:
  "getValue conv k d (Some (type_of_value v)) (reload (flush (setValue k v st))) = Inr v
   \<and> getValue conv k d None (reload (flush (setValue k v st))) = Inr v
   \<and> (cache st k = None \<longrightarrow> getValue conv k d ty st = coerce conv ty d)
   \<and> coerce conv (Some (type_of_value d)) d = Inr d
   \<and> coerce conv None d = Inr d
   \<and> restore_state conv (reload (flush (settings (save_state {} w a)))) = (calls_restoring w, [])
   \<and> restore_state conv empty_settings = (calls_restoring default_window, [])"
proof (intro conjI impI)
  show "getValue conv k d (Some (type_of_value v)) (reload (flush (setValue k v st))) = Inr v"
    by (simp add: getValue_def round_trip_cache coerce_def)
  show "getValue conv k d None (reload (flush (setValue k v st))) = Inr v"
    by (simp add: getValue_def round_trip_cache coerce_def)
  show "getValue conv k d ty st = coerce conv ty d" if "cache st k = None"
    using that by (simp add: getValue_def)
  show "coerce conv (Some (type_of_value d)) d = Inr d"
    by (simp add: coerce_def)
  show "coerce conv None d = Inr d"
    by (simp add: coerce_def)
  show "restore_state conv (reload (flush (settings (save_state {} w a)))) = (calls_restoring w, [])"
    by (rule restore_state_after_save)
  show "restore_state conv empty_settings = (calls_restoring default_window, [])"
    by (rule restore_state_defaults)
qed

theorem settings_round_trip_witness:
  "cache empty_settings ''lily_mood'' = None
   \<and> getValue strict_conv ''lily_mood'' (IntValue 0) (Some IntType) empty_settings
       = Inr (IntValue 0)
   \<and> getValue strict_conv ''lily_mood'' (IntValue 0) (Some IntType)
        (reload (flush (setValue ''lily_mood'' (IntValue 3) empty_settings)))
       = Inr (IntValue 3)
   \<and> getValue strict_conv ''lily_notes'' (StrValue []) (Some StrType)
        (reload (flush (setValue ''lily_notes'' (StrValue ''<p>ate well</p>'') empty_settings)))
       = Inr (StrValue ''<p>ate well</p>'')
   \<and> getValue strict_conv ''geometry'' (BlobValue []) None
        (reload (flush (setValue ''geometry'' (BlobValue [1, 217, 208]) empty_settings)))
       = Inr (BlobValue [1, 217, 208])"
proof -
  have n: "cache empty_settings ''lily_mood'' = None"
    by (simp add: empty_settings_def)
  from n
    settings_round_trip [of strict_conv "''lily_mood''" "IntValue 0" "IntValue 3" empty_settings
      "Some IntType"]
    settings_round_trip [of strict_conv "''lily_notes''" "StrValue []"
      "StrValue ''<p>ate well</p>''" empty_settings]
    settings_round_trip [of strict_conv "''geometry''" "BlobValue []"
      "BlobValue [1, 217, 208]" empty_settings]
  show ?thesis by simp
qed

section \<open>Failure isolation\<close>

lemmas save_eval_defs =
  save_state_def guarded_setValue_def try_setValue_def setValue_def sample_window_def
  fresh_app_def empty_settings_def on_page_changed_def Let_def

text \<open>
  C6, at the two places where the code departs from it: where the guards stand in
  \<open>save_state\<close> and \<open>on_page_changed\<close>. A write that raises inside a \<^verbatim>\<open>try\<close> block of its own costs
  only its own key: with the write of \<^verbatim>\<open>lily_mood\<close> failing, the keys after it are
  still written. The writes of \<^verbatim>\<open>geometry\<close> and \<^verbatim>\<open>windowState\<close> share one block: with
  the write of \<^verbatim>\<open>geometry\<close> failing, \<^verbatim>\<open>windowState\<close> is never written although its own
  write would have gone through. The write in \<open>on_page_changed\<close> has no guard, and its
  exception reaches the caller.
\<close>

theorem save_state_geometry_fault_skips_windowState:
  "cache (settings (save_state {} sample_window fresh_app)) ''windowState''
     = Some (BlobValue [0, 255])
   \<and> cache (settings (save_state {''lily_mood''} sample_window fresh_app)) ''lily_mood'' = None
   \<and> cache (settings (save_state {''lily_mood''} sample_window fresh_app)) ''lily_activity''
     = Some (IntValue 2)
   \<and> cache (settings (save_state {''lily_mood''} sample_window fresh_app)) ''windowState''
     = Some (BlobValue [0, 255])
   \<and> cache (settings (save_state {''geometry''} sample_window fresh_app)) ''geometry'' = None
   \<and> cache (settings (save_state {''geometry''} sample_window fresh_app)) ''windowState'' = None
   \<and> app_log (save_state {''geometry''} sample_window fresh_app)
     = [LogError ''An Error has occurred'']
   \<and> on_page_changed {''lastPageIndex''} 1 fresh_app = Inl RuntimeError"
  by (simp add: save_eval_defs)

lemma guarded_setValue_other_key:
  assumes "k' \<noteq> key"
  shows "cache (settings (guarded_setValue faults key v a)) k' = cache (settings a) k'"
  using assms by (simp add: guarded_setValue_def try_setValue_def setValue_def)

lemma guarded_setValue_own_key:
  "cache (settings (guarded_setValue faults key v a)) key =
     (if key \<in> faults then cache (settings a) key else Some v)"
  by (simp add: guarded_setValue_def try_setValue_def setValue_def)

lemma save_state_shared_guard:
  assumes "''geometry'' \<in> faults"
  shows "cache (settings (save_state faults w a)) ''windowState'' = cache (settings a) ''windowState''"
    and "cache (settings (save_state faults w a)) ''geometry'' = cache (settings a) ''geometry''"
  using assms
  by (simp_all add: save_state_def Let_def try_setValue_def guarded_setValue_other_key)

lemma save_state_own_guard:
  assumes "''lily_notes'' \<notin> faults"
  shows "cache (settings (save_state faults w a)) ''lily_notes'' = Some (StrValue (lily_notes_html w))"
proof -
  let ?a9 = "guarded_setValue faults ''lily_notes'' (StrValue (lily_notes_html w))"
  have own: "cache (settings (?a9 b)) ''lily_notes'' = Some (StrValue (lily_notes_html w))" for b
    using assms by (simp add: guarded_setValue_own_key)
  show ?thesis
    by (simp add: save_state_def Let_def try_setValue_def setValue_def own
        split: sum.splits)
qed

lemma insert_into_failure_leaves_db:
  "db (insert_into ov label sql stmt vs dm) = db dm
   \<or> dm_log (insert_into ov label sql stmt vs dm) = dm_log dm"
proof -
  obtain x q where b: "bind_each ov vs (query_prepare stmt (query dm)) = (x, q)"
    by (cases "bind_each ov vs (query_prepare stmt (query dm))")
  obtain ok dm2 where e: "query_exec (dm\<lparr>query := q\<rparr>) = (ok, dm2)"
    by (cases "query_exec (dm\<lparr>query := q\<rparr>)")
  from query_exec_keeps_log [of "dm\<lparr>query := q\<rparr>"] e have l: "dm_log dm2 = dm_log dm"
    by simp
  from e have f: "\<not> ok \<Longrightarrow> db dm2 = db dm"
    by (auto simp: query_exec_def split: option.splits sum.splits)
  from b e l f show ?thesis
    by (cases x; cases ok)
       (auto simp: insert_into_def check_bind_count_def Let_def)
qed

lemma setup_tables_closed_attempts_all:
  assumes "\<not> isOpen (db dm)"
  shows "dm_log (setup_tables dm) = dm_log dm @
     [LogError ''Error creating table: lily_diet_table'',
      LogError ''Error creating table: lily_mood_table'',
      LogError ''Error creating table: lily_walk_table'',
      LogError ''Error creating table: lily_in_room_table'',
      LogError ''Error creating table: lily_notes_table'',
      LogError ''Error creating table: lily_walk_notes_table'']"
  using assms
  by (simp add: setup_defs create_table_def query_exec_sql_def query_exec_def
      query_prepare_def sqlite_step_def)

section \<open>The delete action\<close>

text \<open>
  C9. After \<open>setup_delete_actions\<close> every trigger of the delete action calls
  \<^verbatim>\<open>delete_selected_rows\<close> six times, once per model, in the order walk, diet, mood,
  room time, notes, walk notes (after whatever was connected before, which at start-up is
  nothing). The room-time call passes \<^verbatim>\<open>time_in_room_table\<close> and the walk-notes call
  passes \<^verbatim>\<open>lily_walk_note_table\<close>; neither is one of the six names \<open>setup_tables\<close>
  creates, which are \<open>schema_table_names\<close>.
\<close>

theorem delete_action_invokes_all_six:
  "trigger (setup_delete_actions []) =
     [DeleteSelectedRows ''lily_walk_table'' ''lily_walk_model'',
      DeleteSelectedRows ''lily_diet_table'' ''lily_diet_model'',
      DeleteSelectedRows ''lily_mood_table'' ''lily_mood_model'',
      DeleteSelectedRows ''time_in_room_table'' ''lily_room_model'',
      DeleteSelectedRows ''lily_notes_table'' ''lily_note_model'',
      DeleteSelectedRows ''lily_walk_note_table'' ''lily_walk_note_model'']
   \<and> trigger (setup_delete_actions signal) = trigger signal @ trigger (setup_delete_actions [])
   \<and> ''time_in_room_table'' \<notin> set schema_table_names
   \<and> ''lily_walk_note_table'' \<notin> set schema_table_names
   \<and> table_names (db (DataManager_init True [])) = schema_table_names"
proof (intro conjI)
  show "trigger (setup_delete_actions []) =
     [DeleteSelectedRows ''lily_walk_table'' ''lily_walk_model'',
      DeleteSelectedRows ''lily_diet_table'' ''lily_diet_model'',
      DeleteSelectedRows ''lily_mood_table'' ''lily_mood_model'',
      DeleteSelectedRows ''time_in_room_table'' ''lily_room_model'',
      DeleteSelectedRows ''lily_notes_table'' ''lily_note_model'',
      DeleteSelectedRows ''lily_walk_note_table'' ''lily_walk_note_model'']"
    by (simp add: trigger_def setup_delete_actions_def connect_def)
  show "trigger (setup_delete_actions signal) = trigger signal @ trigger (setup_delete_actions [])"
    by (simp add: trigger_def setup_delete_actions_def connect_def)
  show "''time_in_room_table'' \<notin> set schema_table_names"
    by (simp add: schema_table_names_def)
  show "''lily_walk_note_table'' \<notin> set schema_table_names"
    by (simp add: schema_table_names_def)
  show "table_names (db (DataManager_init True [])) = schema_table_names"
    by (simp add: DataManager_init_def setup_defs create_table_def query_exec_sql_def
        query_exec_def query_prepare_def sqlite_step_def schema_table_names_def table_names_def)
qed

end
